theory Spec2Isabelle
  imports Complex_Main "HOL-Library.Char_ord" "HOL-Library.List_Lexorder"
begin

section \<open>Data source\<close>

text \<open>
  The engine reads three tables through an SQLite connection. A row keeps the columns the
  queries of \<^verbatim>\<open>metrics.py\<close> read. The columns are declared \<^verbatim>\<open>REAL NOT NULL\<close>,
  \<^verbatim>\<open>TEXT NOT NULL\<close> and \<^verbatim>\<open>INTEGER NOT NULL\<close>: amounts are reals of either sign (the
  schema has no check constraint), the flag is an integer, and no cell is NULL.
  Floating-point rounding error and overflow are not modelled: arithmetic is exact.
\<close>

record financial_period =
  month :: string
  interest_income :: real
  interest_expense :: real
  fee_income :: real
  operating_cost :: real
  net_profit :: real

record account =
  account_type :: string
  balance :: real

record loan =
  sector :: string
  loan_amount :: real
  default_flag :: int

text \<open>
  What \<^verbatim>\<open>pd.read_sql_query\<close> can raise: an \<^verbatim>\<open>sqlite3.Error\<close> (first handler of
  \<^verbatim>\<open>_safe_query_execution\<close>) or any other exception (second handler).
\<close>

datatype error = SqliteError | UnexpectedError

text \<open>
  A connection: for each table either its rows, or the error every query on that table
  raises (closed connection, missing table, malformed schema).
\<close>

record conn =
  financial_statements :: "error + financial_period list"
  accounts :: "error + account list"
  loans :: "error + loan list"

definition EQUITY_PERCENTAGE :: real where
  "EQUITY_PERCENTAGE = 15 / 100"

definition MONTHS_FOR_ANALYSIS :: nat where
  "MONTHS_FOR_ANALYSIS = 12"

section \<open>Numbers\<close>

text \<open>
  \<^verbatim>\<open>round(x, 2)\<close>: the nearest multiple of 0.01, a tie going to the even one.
\<close>

definition round_half_even :: "real \<Rightarrow> int" where
  "round_half_even x =
     (let f = \<lfloor>x\<rfloor>; d = x - of_int f
      in if d < 1 / 2 then f
         else if 1 / 2 < d then f + 1
         else if even f then f else f + 1)"

definition py_round2 :: "real \<Rightarrow> real" where
  "py_round2 x = of_int (round_half_even (x * 100)) / 100"

definition two_decimals :: "real \<Rightarrow> bool" where
  "two_decimals v \<longleftrightarrow> of_int \<lfloor>v * 100\<rfloor> = v * 100"

text \<open>
  A pandas column holds IEEE values: dividing by a zero sum gives an infinity or NaN
  instead of raising. Only these special values are added to the exact reals: the
  rounding, absorption, cancellation and overflow of double arithmetic are not part of
  the model, so that a sum of computed shares or an equality of a computed score with a
  constant is established for exact arithmetic only.
\<close>

datatype npfloat = Finite real | PosInf | NegInf | NaN

fun np_add :: "npfloat \<Rightarrow> npfloat \<Rightarrow> npfloat" where
  "np_add (Finite a) (Finite b) = Finite (a + b)"
| "np_add NaN _ = NaN"
| "np_add _ NaN = NaN"
| "np_add PosInf NegInf = NaN"
| "np_add NegInf PosInf = NaN"
| "np_add PosInf _ = PosInf"
| "np_add _ PosInf = PosInf"
| "np_add NegInf _ = NegInf"
| "np_add _ NegInf = NegInf"

definition np_signed_inf :: "bool \<Rightarrow> npfloat" where
  "np_signed_inf positive = (if positive then PosInf else NegInf)"

fun np_mul :: "npfloat \<Rightarrow> npfloat \<Rightarrow> npfloat" where
  "np_mul (Finite a) (Finite b) = Finite (a * b)"
| "np_mul NaN _ = NaN"
| "np_mul _ NaN = NaN"
| "np_mul PosInf (Finite b) = (if b = 0 then NaN else np_signed_inf (0 < b))"
| "np_mul NegInf (Finite b) = (if b = 0 then NaN else np_signed_inf (b < 0))"
| "np_mul (Finite a) PosInf = (if a = 0 then NaN else np_signed_inf (0 < a))"
| "np_mul (Finite a) NegInf = (if a = 0 then NaN else np_signed_inf (a < 0))"
| "np_mul PosInf PosInf = PosInf"
| "np_mul NegInf NegInf = PosInf"
| "np_mul PosInf NegInf = NegInf"
| "np_mul NegInf PosInf = NegInf"

text \<open>Division; a zero divisor is the positive zero (a sum of reals, a literal).\<close>

fun np_div :: "npfloat \<Rightarrow> npfloat \<Rightarrow> npfloat" where
  "np_div (Finite a) (Finite b) =
     (if b \<noteq> 0 then Finite (a / b)
      else if 0 < a then PosInf else if a < 0 then NegInf else NaN)"
| "np_div NaN _ = NaN"
| "np_div _ NaN = NaN"
| "np_div PosInf (Finite b) = np_signed_inf (0 \<le> b)"
| "np_div NegInf (Finite b) = np_signed_inf (b < 0)"
| "np_div (Finite a) _ = Finite 0"
| "np_div _ _ = NaN"

fun np_less :: "npfloat \<Rightarrow> npfloat \<Rightarrow> bool" where
  "np_less (Finite a) (Finite b) = (a < b)"
| "np_less NaN _ = False"
| "np_less _ NaN = False"
| "np_less NegInf NegInf = False"
| "np_less NegInf _ = True"
| "np_less _ NegInf = False"
| "np_less PosInf _ = False"
| "np_less _ PosInf = True"

text \<open>\<^verbatim>\<open>Series.sum()\<close> skips NaN and starts from 0.\<close>

definition np_sum_skipna :: "npfloat list \<Rightarrow> npfloat" where
  "np_sum_skipna xs = foldr np_add (filter (\<lambda>x. x \<noteq> NaN) xs) (Finite 0)"

text \<open>Python's \<^verbatim>\<open>min(a, b)\<close>: \<^verbatim>\<open>b\<close> when \<^verbatim>\<open>b < a\<close>, else \<^verbatim>\<open>a\<close>.\<close>

definition py_min :: "npfloat \<Rightarrow> npfloat \<Rightarrow> npfloat" where
  "py_min a b = (if np_less b a then b else a)"

fun np_round2 :: "npfloat \<Rightarrow> npfloat" where
  "np_round2 (Finite x) = Finite (py_round2 x)"
| "np_round2 v = v"

section \<open>Query accessor\<close>

text \<open>
  \<^verbatim>\<open>_safe_query_execution\<close>: runs the query on the table; both handlers log and re-raise.
\<close>

definition safe_query_execution :: "(error + 'r) \<Rightarrow> ('r \<Rightarrow> 'a) \<Rightarrow> error + 'a" where
  "safe_query_execution table query =
     (case table of Inl e \<Rightarrow> Inl e | Inr rows \<Rightarrow> Inr (query rows))"

text \<open>
  \<^verbatim>\<open>_safe_get_value\<close> on the single row of an aggregate query: the cell, or the default
  when the cell is NULL.
\<close>

definition safe_get_value :: "real option \<Rightarrow> real \<Rightarrow> real" where
  "safe_get_value cell dflt = (case cell of None \<Rightarrow> dflt | Some v \<Rightarrow> v)"

text \<open>SQL \<^verbatim>\<open>SUM\<close> is NULL on no rows; \<^verbatim>\<open>COALESCE(SUM(..), 0)\<close> is 0 there.\<close>

definition sql_sum :: "real list \<Rightarrow> real option" where
  "sql_sum xs = (if xs = [] then None else Some (sum_list xs))"

definition sql_coalesce :: "real option \<Rightarrow> real \<Rightarrow> real option" where
  "sql_coalesce v d = (case v of None \<Rightarrow> Some d | Some x \<Rightarrow> Some x)"

text \<open>\<^verbatim>\<open>FROM financial_statements ORDER BY month DESC LIMIT {MONTHS_FOR_ANALYSIS}\<close>\<close>

definition recent_periods_query :: "financial_period list \<Rightarrow> financial_period list" where
  "recent_periods_query fs = take MONTHS_FOR_ANALYSIS (rev (sort_key month fs))"

text \<open>\<^verbatim>\<open>WHERE account_type IN ('checking', 'savings')\<close>\<close>

definition deposit_balances :: "account list \<Rightarrow> real list" where
  "deposit_balances as =
     map balance (filter (\<lambda>a. account_type a = ''checking'' \<or> account_type a = ''savings'') as)"

definition deposits_query :: "account list \<Rightarrow> real option" where
  "deposits_query as = sql_coalesce (sql_sum (deposit_balances as)) 0"

definition loans_query :: "loan list \<Rightarrow> real option" where
  "loans_query ls = sql_coalesce (sql_sum (map loan_amount ls)) 0"

definition total_deposits_query :: "account list \<Rightarrow> real option" where
  "total_deposits_query as = sql_sum (deposit_balances as)"

definition total_loans_query :: "loan list \<Rightarrow> real option" where
  "total_loans_query ls = sql_sum (map loan_amount ls)"

text \<open>\<^verbatim>\<open>SUM(CASE WHEN default_flag = 1 THEN loan_amount ELSE 0 END)\<close>\<close>

definition defaulted_amount_query :: "loan list \<Rightarrow> real option" where
  "defaulted_amount_query ls =
     sql_sum (map (\<lambda>l. if default_flag l = 1 then loan_amount l else 0) ls)"

text \<open>\<^verbatim>\<open>COUNT(CASE WHEN default_flag = 1 THEN 1 END)\<close> and \<^verbatim>\<open>COUNT(*)\<close>\<close>

definition defaulted_count_query :: "loan list \<Rightarrow> nat" where
  "defaulted_count_query ls = length (filter (\<lambda>l. default_flag l = 1) ls)"

section \<open>Metric calculators\<close>

text \<open>
  Each calculator is a \<^verbatim>\<open>try\<close> body, which a failing query leaves with its error, under
  the handler \<^verbatim>\<open>except Exception: return 0.0\<close>.
\<close>

definition total_assets_of :: "conn \<Rightarrow> error + real" where
  "total_assets_of c =
     (case safe_query_execution (accounts c) deposits_query of Inl e \<Rightarrow> Inl e
      | Inr deposits_df \<Rightarrow>
     (case safe_query_execution (loans c) loans_query of Inl e \<Rightarrow> Inl e
      | Inr loans_df \<Rightarrow>
        Inr (safe_get_value deposits_df 0 + safe_get_value loans_df 0)))"

definition nim_body :: "conn \<Rightarrow> error + real" where
  "nim_body c =
     (case safe_query_execution (financial_statements c) recent_periods_query of
        Inl e \<Rightarrow> Inl e
      | Inr df \<Rightarrow>
     (let total_interest_income =
            (if 0 < length df then sum_list (map interest_income df) else 0);
          total_interest_expense =
            (if 0 < length df then sum_list (map interest_expense df) else 0)
      in case total_assets_of c of Inl e \<Rightarrow> Inl e
         | Inr avg_assets \<Rightarrow>
             if avg_assets = 0 then Inr 0
             else Inr (py_round2
                    ((total_interest_income - total_interest_expense) / avg_assets * 100))))"

definition calculate_net_interest_margin :: "conn \<Rightarrow> error + real" where
  "calculate_net_interest_margin c =
     (case nim_body c of Inl e \<Rightarrow> Inr 0 | Inr v \<Rightarrow> Inr v)"

definition roa_body :: "conn \<Rightarrow> error + real" where
  "roa_body c =
     (case safe_query_execution (financial_statements c) recent_periods_query of
        Inl e \<Rightarrow> Inl e
      | Inr profit_df \<Rightarrow>
     (let total_profit =
            (if 0 < length profit_df then sum_list (map net_profit profit_df) else 0)
      in case total_assets_of c of Inl e \<Rightarrow> Inl e
         | Inr total_assets \<Rightarrow>
             if total_assets = 0 then Inr 0
             else Inr (py_round2 (total_profit / total_assets * 100))))"

definition calculate_roa :: "conn \<Rightarrow> error + real" where
  "calculate_roa c = (case roa_body c of Inl e \<Rightarrow> Inr 0 | Inr v \<Rightarrow> Inr v)"

definition roe_body :: "conn \<Rightarrow> error + real" where
  "roe_body c =
     (case safe_query_execution (financial_statements c) recent_periods_query of
        Inl e \<Rightarrow> Inl e
      | Inr profit_df \<Rightarrow>
     (let total_profit =
            (if 0 < length profit_df then sum_list (map net_profit profit_df) else 0)
      in case total_assets_of c of Inl e \<Rightarrow> Inl e
         | Inr total_assets \<Rightarrow>
            (let equity = total_assets * EQUITY_PERCENTAGE
             in if equity = 0 then Inr 0
                else Inr (py_round2 (total_profit / equity * 100)))))"

definition calculate_roe :: "conn \<Rightarrow> error + real" where
  "calculate_roe c = (case roe_body c of Inl e \<Rightarrow> Inr 0 | Inr v \<Rightarrow> Inr v)"

definition cir_body :: "conn \<Rightarrow> error + real" where
  "cir_body c =
     (case safe_query_execution (financial_statements c) recent_periods_query of
        Inl e \<Rightarrow> Inl e
      | Inr df \<Rightarrow>
     (let total_costs = (if 0 < length df then sum_list (map operating_cost df) else 0);
          total_income =
            (if 0 < length df
             then sum_list (map interest_income df) + sum_list (map fee_income df) else 0)
      in if total_income = 0 then Inr 0
         else Inr (py_round2 (total_costs / total_income * 100))))"

definition calculate_cost_to_income_ratio :: "conn \<Rightarrow> error + real" where
  "calculate_cost_to_income_ratio c =
     (case cir_body c of Inl e \<Rightarrow> Inr 0 | Inr v \<Rightarrow> Inr v)"

definition ldr_body :: "conn \<Rightarrow> error + real" where
  "ldr_body c =
     (case safe_query_execution (accounts c) total_deposits_query of Inl e \<Rightarrow> Inl e
      | Inr deposits_df \<Rightarrow>
     (case safe_query_execution (loans c) total_loans_query of Inl e \<Rightarrow> Inl e
      | Inr loans_df \<Rightarrow>
     (let total_deposits = safe_get_value deposits_df 0;
          total_loans = safe_get_value loans_df 0
      in if total_deposits = 0 then Inr 0
         else Inr (py_round2 (total_loans / total_deposits * 100)))))"

definition calculate_loan_to_deposit_ratio :: "conn \<Rightarrow> error + real" where
  "calculate_loan_to_deposit_ratio c =
     (case ldr_body c of Inl e \<Rightarrow> Inr 0 | Inr v \<Rightarrow> Inr v)"

definition default_rate_body :: "conn \<Rightarrow> error + real \<times> real" where
  "default_rate_body c =
     (case safe_query_execution (loans c)
             (\<lambda>ls. (defaulted_count_query ls, length ls,
                    defaulted_amount_query ls, total_loans_query ls)) of
        Inl e \<Rightarrow> Inl e
      | Inr (defaulted_loans_cell, total_loans_cell, defaulted_amount_cell, total_amount_cell) \<Rightarrow>
     (let total_loans = safe_get_value (Some (real total_loans_cell)) 0;
          defaulted_loans = safe_get_value (Some (real defaulted_loans_cell)) 0;
          defaulted_amount = safe_get_value defaulted_amount_cell 0;
          total_amount = safe_get_value total_amount_cell 0
      in if total_loans = 0 then Inr (0, 0)
         else
          (let rate_by_count = defaulted_loans / total_loans * 100;
               rate_by_value =
                 (if 0 < total_amount then defaulted_amount / total_amount * 100 else 0)
           in Inr (py_round2 rate_by_count, py_round2 rate_by_value))))"

definition calculate_default_rate :: "conn \<Rightarrow> error + real \<times> real" where
  "calculate_default_rate c =
     (case default_rate_body c of Inl e \<Rightarrow> Inr (0, 0) | Inr v \<Rightarrow> Inr v)"

definition npl_body :: "conn \<Rightarrow> error + real" where
  "npl_body c =
     (case safe_query_execution (loans c)
             (\<lambda>ls. (defaulted_amount_query ls, total_loans_query ls)) of
        Inl e \<Rightarrow> Inl e
      | Inr (npl_amount_cell, total_loans_cell) \<Rightarrow>
     (let total_loans = safe_get_value total_loans_cell 0;
          npl_amount = safe_get_value npl_amount_cell 0
      in if total_loans = 0 then Inr 0
         else Inr (py_round2 (npl_amount / total_loans * 100))))"

definition calculate_npl_ratio :: "conn \<Rightarrow> error + real" where
  "calculate_npl_ratio c = (case npl_body c of Inl e \<Rightarrow> Inr 0 | Inr v \<Rightarrow> Inr v)"

section \<open>Sector exposure aggregator\<close>

record sector_group =
  row_sector :: string
  loan_count :: nat
  total_exposure :: real
  defaulted_exposure :: real
  defaulted_count :: nat

record exposure_row = sector_group +
  default_rate :: npfloat
  exposure_pct :: npfloat

text \<open>
  \<^verbatim>\<open>FROM loans GROUP BY sector ORDER BY total_exposure DESC\<close>: one row per sector that
  occurs. SQL leaves the order of rows with equal \<^verbatim>\<open>total_exposure\<close> open; the
  model keeps them in the order of the grouping.
\<close>

definition exposure_query :: "loan list \<Rightarrow> sector_group list" where
  "exposure_query ls =
     sort_key (\<lambda>g. - total_exposure g)
       (map (\<lambda>s. let grp = filter (\<lambda>l. sector l = s) ls
                 in \<lparr>row_sector = s,
                     loan_count = length grp,
                     total_exposure = sum_list (map loan_amount grp),
                     defaulted_exposure =
                       sum_list (map (\<lambda>l. if default_flag l = 1 then loan_amount l else 0) grp),
                     defaulted_count = length (filter (\<lambda>l. default_flag l = 1) grp)\<rparr>)
            (remdups (map sector ls)))"

text \<open>
  The column \<^verbatim>\<open>(df['total_exposure'] / df['total_exposure'].sum()) * 100\<close>. The sum
  and the quotients are exact here, where the code has doubles: exposures of mixed sign
  or of very different size, which cancel or are absorbed in doubles, are not rounded.
\<close>

definition exposure_pct_column :: "real list \<Rightarrow> npfloat list" where
  "exposure_pct_column exposures =
     map (\<lambda>x. np_mul (np_div (Finite x) (Finite (sum_list exposures))) (Finite 100)) exposures"

definition exposure_body :: "conn \<Rightarrow> error + exposure_row list" where
  "exposure_body c =
     (case safe_query_execution (loans c) exposure_query of Inl e \<Rightarrow> Inl e
      | Inr df \<Rightarrow>
          if length df = 0 then Inr []
          else Inr (map (\<lambda>(g, pct).
                 \<lparr>row_sector = row_sector g,
                  loan_count = loan_count g,
                  total_exposure = total_exposure g,
                  defaulted_exposure = defaulted_exposure g,
                  defaulted_count = defaulted_count g,
                  default_rate =
                    np_mul (np_div (Finite (real (defaulted_count g)))
                                   (Finite (real (loan_count g)))) (Finite 100),
                  exposure_pct = pct\<rparr>)
               (zip df (exposure_pct_column (map total_exposure df)))))"

definition calculate_credit_exposure_by_sector :: "conn \<Rightarrow> error + exposure_row list" where
  "calculate_credit_exposure_by_sector c =
     (case exposure_body c of Inl e \<Rightarrow> Inr [] | Inr df \<Rightarrow> Inr df)"

section \<open>Risk composite scorer\<close>

record risk_scores =
  npl_score :: real
  ldr_score :: real
  default_score :: real
  concentration_score :: npfloat

text \<open>
  The first part of the \<^verbatim>\<open>try\<close> body of \<^verbatim>\<open>calculate_bank_risk_index\<close>: the four
  contributions, as the body assigns them.
\<close>

definition risk_contributions :: "conn \<Rightarrow> error + risk_scores" where
  "risk_contributions c =
     (case calculate_npl_ratio c of Inl e \<Rightarrow> Inl e
      | Inr npl_ratio \<Rightarrow>
     (case calculate_loan_to_deposit_ratio c of Inl e \<Rightarrow> Inl e
      | Inr ldr \<Rightarrow>
     (case calculate_default_rate c of Inl e \<Rightarrow> Inl e
      | Inr (rate_by_count, default_rate_value) \<Rightarrow>
     (case calculate_credit_exposure_by_sector c of Inl e \<Rightarrow> Inl e
      | Inr exposure_df \<Rightarrow>
         Inr \<lparr>npl_score = min (npl_ratio * 10) 40,
              ldr_score =
                min (if ldr < 80 then (80 - ldr) * (5 / 10)
                     else if 100 < ldr then (ldr - 100) * (5 / 10)
                     else 0) 20,
              default_score = min (default_rate_value * 3) 30,
              concentration_score =
                (if 0 < length exposure_df
                 then (let pct = exposure_pct_column (map total_exposure exposure_df);
                           hhi = np_sum_skipna (map (\<lambda>p. np_mul p p) pct)
                       in np_mul (np_div hhi (Finite 10000)) (Finite 10))
                 else Finite 10)\<rparr>))))"

text \<open>The rest of the body: the sum, the cap at 100 and the rounding.\<close>

definition risk_body :: "conn \<Rightarrow> error + npfloat" where
  "risk_body c =
     (case risk_contributions c of Inl e \<Rightarrow> Inl e
      | Inr s \<Rightarrow>
         (let total_risk_score =
                np_add (Finite (npl_score s + ldr_score s + default_score s))
                       (concentration_score s);
              risk_index = py_min total_risk_score (Finite 100)
          in Inr (np_round2 risk_index)))"

definition calculate_bank_risk_index :: "conn \<Rightarrow> error + npfloat" where
  "calculate_bank_risk_index c =
     (case risk_body c of Inl e \<Rightarrow> Inr (Finite 0) | Inr v \<Rightarrow> Inr v)"

section \<open>Financial summary\<close>

definition summary_body :: "conn \<Rightarrow> error + (string \<rightharpoonup> real)" where
  "summary_body c =
     (case safe_query_execution (financial_statements c) recent_periods_query of
        Inl e \<Rightarrow> Inl e
      | Inr df \<Rightarrow>
     (case safe_query_execution (accounts c) total_deposits_query of Inl e \<Rightarrow> Inl e
      | Inr deposits_df \<Rightarrow>
     (case safe_query_execution (loans c) total_loans_query of Inl e \<Rightarrow> Inl e
      | Inr loans_df \<Rightarrow>
     (let total_deposits = safe_get_value deposits_df 0;
          total_loans = safe_get_value loans_df 0
      in Inr (map_of
           [(''total_assets'', total_deposits + total_loans),
            (''total_deposits'', total_deposits),
            (''total_loans'', total_loans),
            (''interest_income'',
               if 0 < length df then sum_list (map interest_income df) else 0),
            (''interest_expense'',
               if 0 < length df then sum_list (map interest_expense df) else 0),
            (''fee_income'', if 0 < length df then sum_list (map fee_income df) else 0),
            (''operating_cost'',
               if 0 < length df then sum_list (map operating_cost df) else 0),
            (''net_profit'', if 0 < length df then sum_list (map net_profit df) else 0)])))))"

definition get_financial_summary :: "conn \<Rightarrow> error + (string \<rightharpoonup> real)" where
  "get_financial_summary c =
     (case summary_body c of
        Inl e \<Rightarrow>
          Inr (map_of
            [(''total_assets'', 0), (''total_deposits'', 0), (''total_loans'', 0),
             (''interest_income'', 0), (''interest_expense'', 0), (''fee_income'', 0),
             (''operating_cost'', 0), (''net_profit'', 0)])
      | Inr v \<Rightarrow> Inr v)"

section \<open>Sample data sources\<close>

text \<open>The rows a table holds; none when it cannot be read.\<close>

definition table_rows :: "error + 'r list \<Rightarrow> 'r list" where
  "table_rows table = (case table of Inl e \<Rightarrow> [] | Inr rows \<Rightarrow> rows)"

text \<open>The data model of the specification: every loan amount is positive.\<close>

definition loan_amounts_positive :: "conn \<Rightarrow> bool" where
  "loan_amounts_positive c = list_all (\<lambda>l. 0 < loan_amount l) (table_rows (loans c))"

definition empty_conn :: conn where
  "empty_conn = \<lparr>financial_statements = Inr [], accounts = Inr [], loans = Inr []\<rparr>"

definition broken_conn :: conn where
  "broken_conn =
     \<lparr>financial_statements = Inl SqliteError, accounts = Inl SqliteError,
      loans = Inl SqliteError\<rparr>"

text \<open>The fixture of \<^verbatim>\<open>tests/test_metrics.py\<close>.\<close>

definition test_period :: "string \<Rightarrow> financial_period" where
  "test_period m =
     \<lparr>month = m, interest_income = 1000000, interest_expense = 400000,
      fee_income = 200000, operating_cost = 500000, net_profit = 300000\<rparr>"

definition test_db :: conn where
  "test_db =
     \<lparr>financial_statements = Inr (map test_period
        [''2024-01'', ''2024-02'', ''2024-03'', ''2024-04'', ''2024-05'', ''2024-06'',
         ''2024-07'', ''2024-08'', ''2024-09'', ''2024-10'', ''2024-11'', ''2024-12'']),
      accounts = Inr
        [\<lparr>account_type = ''checking'', balance = 100000\<rparr>,
         \<lparr>account_type = ''savings'', balance = 200000\<rparr>],
      loans = Inr
        [\<lparr>sector = ''Technology'', loan_amount = 500000, default_flag = 0\<rparr>,
         \<lparr>sector = ''Retail'', loan_amount = 300000, default_flag = 1\<rparr>]\<rparr>"

section \<open>Quantities of the specification\<close>

text \<open>
  The totals as the specification defines them: deposits are the balances of checking and
  savings accounts, assets are deposits plus loans, and the analysis window is the result
  of the window query. A table that cannot be read contributes no rows.
\<close>

definition spec_total_deposits :: "conn \<Rightarrow> real" where
  "spec_total_deposits c = sum_list (deposit_balances (table_rows (accounts c)))"

definition spec_total_loans :: "conn \<Rightarrow> real" where
  "spec_total_loans c = sum_list (map loan_amount (table_rows (loans c)))"

definition spec_total_assets :: "conn \<Rightarrow> real" where
  "spec_total_assets c = spec_total_deposits c + spec_total_loans c"

definition spec_window :: "conn \<Rightarrow> financial_period list" where
  "spec_window c = recent_periods_query (table_rows (financial_statements c))"

definition spec_total_income :: "conn \<Rightarrow> real" where
  "spec_total_income c =
     sum_list (map interest_income (spec_window c)) + sum_list (map fee_income (spec_window c))"

text \<open>
  The concentration score as lines 500 to 507 of \<^verbatim>\<open>metrics.py\<close> compute it from the
  \<^verbatim>\<open>total_exposure\<close> column, and the Herfindahl index of the exposures as a fraction.
\<close>

definition hhi_score :: "real list \<Rightarrow> npfloat" where
  "hhi_score es =
     (if es \<noteq> []
      then np_mul (np_div (np_sum_skipna (map (\<lambda>p. np_mul p p) (exposure_pct_column es)))
                          (Finite 10000)) (Finite 10)
      else Finite 10)"

definition herfindahl :: "real list \<Rightarrow> real" where
  "herfindahl es = (\<Sum>x\<leftarrow>es. x * x) / (sum_list es * sum_list es)"

text \<open>A portfolio in one sector.\<close>

definition single_sector_db :: conn where
  "single_sector_db =
     \<lparr>financial_statements = Inr [],
      accounts = Inr [\<lparr>account_type = ''checking'', balance = 1000\<rparr>],
      loans = Inr
        [\<lparr>sector = ''Retail'', loan_amount = 500, default_flag = 0\<rparr>,
         \<lparr>sector = ''Retail'', loan_amount = 300, default_flag = 0\<rparr>]\<rparr>"

text \<open>The fixture with one older period before its twelve.\<close>

definition long_db :: conn where
  "long_db =
     \<lparr>financial_statements = Inr
        (\<lparr>month = ''2023-12'', interest_income = 7, interest_expense = 7,
          fee_income = 7, operating_cost = 7, net_profit = 7\<rparr>
         # map test_period
        [''2024-01'', ''2024-02'', ''2024-03'', ''2024-04'', ''2024-05'', ''2024-06'',
         ''2024-07'', ''2024-08'', ''2024-09'', ''2024-10'', ''2024-11'', ''2024-12'']),
      accounts = Inr
        [\<lparr>account_type = ''checking'', balance = 100000\<rparr>,
         \<lparr>account_type = ''savings'', balance = 200000\<rparr>],
      loans = Inr
        [\<lparr>sector = ''Technology'', loan_amount = 500000, default_flag = 0\<rparr>,
         \<lparr>sector = ''Retail'', loan_amount = 300000, default_flag = 1\<rparr>]\<rparr>"

text \<open>Loan amounts that are not negative.\<close>

definition loan_amounts_nonneg :: "conn \<Rightarrow> bool" where
  "loan_amounts_nonneg c = list_all (\<lambda>l. 0 \<le> loan_amount l) (table_rows (loans c))"

text \<open>Loans tables the schema admits: a negative amount, and one loan of amount 0.\<close>

definition negative_loan_db :: conn where
  "negative_loan_db =
     \<lparr>financial_statements = Inr [], accounts = Inr [],
      loans = Inr
        [\<lparr>sector = ''A'', loan_amount = 100, default_flag = 0\<rparr>,
         \<lparr>sector = ''B'', loan_amount = - 300, default_flag = 0\<rparr>,
         \<lparr>sector = ''B'', loan_amount = 100, default_flag = 1\<rparr>]\<rparr>"

definition zero_loan_db :: conn where
  "zero_loan_db =
     \<lparr>financial_statements = Inr [], accounts = Inr [],
      loans = Inr [\<lparr>sector = ''A'', loan_amount = 0, default_flag = 0\<rparr>]\<rparr>"

text \<open>The dictionary the handler of \<^verbatim>\<open>get_financial_summary\<close> returns.\<close>

definition zero_summary :: "string \<rightharpoonup> real" where
  "zero_summary =
     map_of
       [(''total_assets'', 0), (''total_deposits'', 0), (''total_loans'', 0),
        (''interest_income'', 0), (''interest_expense'', 0), (''fee_income'', 0),
        (''operating_cost'', 0), (''net_profit'', 0)]"

section \<open>Rounding\<close>

lemma round_half_even_of_int: "round_half_even (of_int k) = k"
  by (simp add: round_half_even_def)

lemma round_half_even_bounds:
  "\<lfloor>x\<rfloor> \<le> round_half_even x" "round_half_even x \<le> \<lfloor>x\<rfloor> + 1"
  by (simp_all add: round_half_even_def Let_def)

lemma round_half_even_mono:
  assumes "x \<le> y"
  shows "round_half_even x \<le> round_half_even y"
proof (cases "\<lfloor>x\<rfloor> < \<lfloor>y\<rfloor>")
  case True
  have "round_half_even x \<le> \<lfloor>x\<rfloor> + 1" by (rule round_half_even_bounds)
  also have "\<dots> \<le> \<lfloor>y\<rfloor>" using True by simp
  also have "\<dots> \<le> round_half_even y" by (rule round_half_even_bounds)
  finally show ?thesis .
next
  case False
  with assms have eq: "\<lfloor>x\<rfloor> = \<lfloor>y\<rfloor>" using floor_mono [of x y] by linarith
  with assms show ?thesis
    by (auto simp add: round_half_even_def Let_def)
qed

lemma py_round2_mono: "x \<le> y \<Longrightarrow> py_round2 x \<le> py_round2 y"
  by (simp add: py_round2_def divide_right_mono round_half_even_mono)

lemma py_round2_of_int: "py_round2 (of_int k) = of_int k"
proof -
  have "(of_int k :: real) * 100 = of_int (k * 100)" by simp
  then have "round_half_even (of_int k * 100) = k * 100"
    by (simp only: round_half_even_of_int)
  then show ?thesis by (simp add: py_round2_def)
qed

lemma py_round2_0: "py_round2 0 = 0"
  using py_round2_of_int [of 0] by simp

lemma py_round2_nonneg: "0 \<le> x \<Longrightarrow> 0 \<le> py_round2 x"
  using py_round2_mono [of 0 x] by (simp add: py_round2_0)

lemma py_round2_le_100: "x \<le> 100 \<Longrightarrow> py_round2 x \<le> 100"
  using py_round2_mono [of x 100] py_round2_of_int [of 100] by simp

lemma two_decimals_py_round2: "two_decimals (py_round2 x)"
  by (simp add: two_decimals_def py_round2_def)

lemma two_decimals_0: "two_decimals 0"
  by (simp add: two_decimals_def)

section \<open>The calculators always return\<close>

lemma sqe_simps:
  "safe_query_execution (Inl e) q = Inl e"
  "safe_query_execution (Inr rows) q = Inr (q rows)"
  by (simp_all add: safe_query_execution_def)

lemmas body_defs = nim_body_def roa_body_def roe_body_def cir_body_def ldr_body_def
  default_rate_body_def npl_body_def exposure_body_def summary_body_def total_assets_of_def

lemmas calc_defs = calculate_net_interest_margin_def calculate_roa_def calculate_roe_def
  calculate_cost_to_income_ratio_def calculate_loan_to_deposit_ratio_def
  calculate_default_rate_def calculate_npl_ratio_def calculate_credit_exposure_by_sector_def
  get_financial_summary_def

lemma calculators_return:
  "\<exists>v. calculate_net_interest_margin c = Inr v"
  "\<exists>v. calculate_roa c = Inr v"
  "\<exists>v. calculate_roe c = Inr v"
  "\<exists>v. calculate_cost_to_income_ratio c = Inr v"
  "\<exists>v. calculate_loan_to_deposit_ratio c = Inr v"
  "\<exists>v. calculate_default_rate c = Inr v"
  "\<exists>v. calculate_npl_ratio c = Inr v"
  "\<exists>v. calculate_credit_exposure_by_sector c = Inr v"
  "\<exists>v. get_financial_summary c = Inr v"
  by (simp_all add: calc_defs split: sum.split)

lemma risk_contributions_return: "\<exists>s. risk_contributions c = Inr s"
  using calculators_return(5-8) [of c]
  by (auto simp add: risk_contributions_def)

lemma risk_index_return: "\<exists>v. calculate_bank_risk_index c = Inr v"
  by (simp add: calculate_bank_risk_index_def split: sum.split)

lemma statements_fail:
  assumes "financial_statements c = Inl e"
  shows "calculate_net_interest_margin c = Inr 0" "calculate_roa c = Inr 0"
    "calculate_roe c = Inr 0" "calculate_cost_to_income_ratio c = Inr 0"
  using assms by (simp_all add: calc_defs body_defs sqe_simps)

lemma accounts_fail:
  assumes "accounts c = Inl e"
  shows "calculate_net_interest_margin c = Inr 0" "calculate_roa c = Inr 0"
    "calculate_roe c = Inr 0" "calculate_loan_to_deposit_ratio c = Inr 0"
  using assms by (simp_all add: calc_defs body_defs sqe_simps Let_def split: sum.split)

lemma loans_fail:
  assumes "loans c = Inl e"
  shows "calculate_net_interest_margin c = Inr 0" "calculate_roa c = Inr 0"
    "calculate_roe c = Inr 0" "calculate_loan_to_deposit_ratio c = Inr 0"
    "calculate_default_rate c = Inr (0, 0)" "calculate_npl_ratio c = Inr 0"
    "calculate_credit_exposure_by_sector c = Inr []"
  using assms by (simp_all add: calc_defs body_defs sqe_simps Let_def split: sum.split)


lemma ldr_empty: "calculate_loan_to_deposit_ratio empty_conn = Inr 0"
  by (simp add: calculate_loan_to_deposit_ratio_def ldr_body_def empty_conn_def sqe_simps
      total_deposits_query_def total_loans_query_def deposit_balances_def sql_sum_def
      safe_get_value_def)

lemma npl_empty: "calculate_npl_ratio empty_conn = Inr 0"
  by (simp add: calculate_npl_ratio_def npl_body_def empty_conn_def sqe_simps
      defaulted_amount_query_def total_loans_query_def sql_sum_def safe_get_value_def)

lemma default_rate_empty: "calculate_default_rate empty_conn = Inr (0, 0)"
  by (simp add: calculate_default_rate_def default_rate_body_def empty_conn_def sqe_simps
      defaulted_amount_query_def defaulted_count_query_def total_loans_query_def sql_sum_def
      safe_get_value_def)

lemma exposure_empty: "calculate_credit_exposure_by_sector empty_conn = Inr []"
  by (simp add: calculate_credit_exposure_by_sector_def exposure_body_def empty_conn_def
      sqe_simps exposure_query_def)

lemma risk_contributions_empty:
  "risk_contributions empty_conn =
     Inr \<lparr>npl_score = 0, ldr_score = 20, default_score = 0, concentration_score = Finite 10\<rparr>"
  by (simp add: risk_contributions_def ldr_empty npl_empty default_rate_empty exposure_empty)

lemma risk_contributions_ldr_score:
  assumes "risk_contributions c = Inr s" and "calculate_loan_to_deposit_ratio c = Inr ldr"
  shows "ldr_score s =
     min (if ldr < 80 then (80 - ldr) * (5 / 10)
          else if 100 < ldr then (ldr - 100) * (5 / 10) else 0) 20"
  using assms by (auto simp add: risk_contributions_def split: sum.splits prod.splits)

section \<open>Empty tables\<close>

text \<open>
  Claim C10. On the data source whose three tables are empty the loan-to-deposit ratio
  falls back to 0, the contributions are 0 (NPL), 20 (liquidity, at its cap), 0 (default)
  and 10 (concentration), and \<^verbatim>\<open>calculate_bank_risk_index\<close> returns 30.
\<close>

theorem risk_index_empty_tables:
  "calculate_loan_to_deposit_ratio
     \<lparr>financial_statements = Inr [], accounts = Inr [], loans = Inr []\<rparr> = Inr 0
   \<and> risk_contributions \<lparr>financial_statements = Inr [], accounts = Inr [], loans = Inr []\<rparr>
       = Inr \<lparr>npl_score = 0, ldr_score = 20, default_score = 0,
              concentration_score = Finite 10\<rparr>
   \<and> calculate_bank_risk_index
       \<lparr>financial_statements = Inr [], accounts = Inr [], loans = Inr []\<rparr> = Inr (Finite 30)"
proof -
  have "py_round2 30 = 30" using py_round2_of_int [of 30] by simp
  then have "calculate_bank_risk_index empty_conn = Inr (Finite 30)"
    using risk_contributions_empty
    by (simp add: calculate_bank_risk_index_def risk_body_def py_min_def)
  then show ?thesis
    using ldr_empty risk_contributions_empty by (simp add: empty_conn_def)
qed

section \<open>Liquidity contribution\<close>

text \<open>
  Claim C6. In \<^verbatim>\<open>calculate_bank_risk_index\<close> the liquidity contribution is 0 exactly
  when the loan-to-deposit ratio lies in [80, 100]; below 80 it is (80 - LDR) * 0.5 and
  above 100 it is (LDR - 100) * 0.5, each capped at 20.
\<close>

theorem liquidity_contribution:
  "\<exists>s ldr. risk_contributions c = Inr s \<and> calculate_loan_to_deposit_ratio c = Inr ldr
     \<and> (ldr_score s = 0 \<longleftrightarrow> 80 \<le> ldr \<and> ldr \<le> 100)
     \<and> ldr_score s =
         (if ldr < 80 then min ((80 - ldr) * (5 / 10)) 20
          else if 100 < ldr then min ((ldr - 100) * (5 / 10)) 20
          else 0)"
proof -
  obtain s where s: "risk_contributions c = Inr s"
    using risk_contributions_return by blast
  obtain ldr where l: "calculate_loan_to_deposit_ratio c = Inr ldr"
    using calculators_return(5) by blast
  note eq = risk_contributions_ldr_score [OF s l]
  have "ldr_score s = 0 \<longleftrightarrow> 80 \<le> ldr \<and> ldr \<le> 100"
    unfolding eq by (auto simp add: min_def)
  moreover have "ldr_score s =
         (if ldr < 80 then min ((80 - ldr) * (5 / 10)) 20
          else if 100 < ldr then min ((ldr - 100) * (5 / 10)) 20
          else 0)"
    unfolding eq by simp
  ultimately show ?thesis using s l by blast
qed

theorem liquidity_contribution_witness:
  "\<exists>s. risk_contributions empty_conn = Inr s \<and> ldr_score s = 20"
proof -
  from liquidity_contribution [of empty_conn] obtain s ldr where
    s: "risk_contributions empty_conn = Inr s" and
    l: "calculate_loan_to_deposit_ratio empty_conn = Inr ldr" and
    eq: "ldr_score s =
         (if ldr < 80 then min ((80 - ldr) * (5 / 10)) 20
          else if 100 < ldr then min ((ldr - 100) * (5 / 10)) 20
          else 0)"
    by blast
  from l have "ldr = 0" by (simp add: ldr_empty)
  with eq have "ldr_score s = 20" by simp
  with s show ?thesis by blast
qed

section \<open>Failing queries\<close>

text \<open>
  Claim C2 as stated, refuted. With a loans table whose queries raise
  \<^verbatim>\<open>sqlite3.Error\<close>, \<^verbatim>\<open>_safe_query_execution\<close> re-raises, but
  \<^verbatim>\<open>calculate_npl_ratio\<close> returns 0.0: the error does not reach the caller.
\<close>

theorem query_error_not_reraised:
  "loans broken_conn = Inl SqliteError
   \<and> safe_query_execution (loans broken_conn) total_loans_query = Inl SqliteError
   \<and> calculate_npl_ratio broken_conn = Inr 0
   \<and> calculate_npl_ratio broken_conn \<noteq> Inl SqliteError"
proof -
  have l: "loans broken_conn = Inl SqliteError" by (simp add: broken_conn_def)
  from loans_fail(6) [OF l] l show ?thesis by (simp add: sqe_simps)
qed

lemma summary_fail:
  "financial_statements c = Inl e \<Longrightarrow> get_financial_summary c = Inr zero_summary"
  "accounts c = Inl e \<Longrightarrow> get_financial_summary c = Inr zero_summary"
  "loans c = Inl e \<Longrightarrow> get_financial_summary c = Inr zero_summary"
  by (simp_all add: get_financial_summary_def summary_body_def sqe_simps zero_summary_def
      split: sum.split)

lemma risk_body_returns:
  "\<exists>v. risk_body c = Inr v \<and> calculate_bank_risk_index c = Inr v"
proof -
  obtain s where s: "risk_contributions c = Inr s"
    using risk_contributions_return by blast
  then show ?thesis
    by (simp add: calculate_bank_risk_index_def risk_body_def Let_def)
qed

lemma loans_fail_risk_index:
  assumes "loans c = Inl e"
  shows "calculate_bank_risk_index c = Inr (Finite 30)"
proof -
  have rc: "risk_contributions c =
     Inr \<lparr>npl_score = 0, ldr_score = 20, default_score = 0, concentration_score = Finite 10\<rparr>"
    by (simp add: risk_contributions_def loans_fail(4-7) [OF assms])
  have "py_round2 30 = 30" using py_round2_of_int [of 30] by simp
  then show ?thesis
    by (simp add: calculate_bank_risk_index_def risk_body_def rc py_min_def)
qed

text \<open>
  Claim C2, amended. When a query on a table fails, \<^verbatim>\<open>_safe_query_execution\<close>
  re-raises the error, but no calculator does: each metric calculator, the sector
  aggregator and the financial summary that reads the table catches the error in its own
  handler, as it catches any other failure, and returns its default (0.0, the pair
  (0.0, 0.0), an empty frame, the all-zero summary). \<^verbatim>\<open>calculate_bank_risk_index\<close>
  does not raise either and its handler is never reached: its body receives those
  defaults and computes the index from them, 30.0 when the loans table cannot be queried.
\<close>

theorem calculators_swallow_query_errors:
  "(\<exists>v. calculate_net_interest_margin c = Inr v) \<and> (\<exists>v. calculate_roa c = Inr v)
   \<and> (\<exists>v. calculate_roe c = Inr v) \<and> (\<exists>v. calculate_cost_to_income_ratio c = Inr v)
   \<and> (\<exists>v. calculate_loan_to_deposit_ratio c = Inr v) \<and> (\<exists>v. calculate_default_rate c = Inr v)
   \<and> (\<exists>v. calculate_npl_ratio c = Inr v) \<and> (\<exists>v. calculate_credit_exposure_by_sector c = Inr v)
   \<and> (\<exists>v. get_financial_summary c = Inr v)
   \<and> (\<exists>v. risk_body c = Inr v \<and> calculate_bank_risk_index c = Inr v)
   \<and> (financial_statements c = Inl e \<longrightarrow>
        safe_query_execution (financial_statements c) recent_periods_query = Inl e
        \<and> calculate_net_interest_margin c = Inr 0 \<and> calculate_roa c = Inr 0
        \<and> calculate_roe c = Inr 0 \<and> calculate_cost_to_income_ratio c = Inr 0
        \<and> get_financial_summary c = Inr zero_summary)
   \<and> (accounts c = Inl e \<longrightarrow>
        safe_query_execution (accounts c) total_deposits_query = Inl e
        \<and> calculate_net_interest_margin c = Inr 0 \<and> calculate_roa c = Inr 0
        \<and> calculate_roe c = Inr 0 \<and> calculate_loan_to_deposit_ratio c = Inr 0
        \<and> get_financial_summary c = Inr zero_summary)
   \<and> (loans c = Inl e \<longrightarrow>
        safe_query_execution (loans c) total_loans_query = Inl e
        \<and> calculate_net_interest_margin c = Inr 0 \<and> calculate_roa c = Inr 0
        \<and> calculate_roe c = Inr 0 \<and> calculate_loan_to_deposit_ratio c = Inr 0
        \<and> calculate_default_rate c = Inr (0, 0) \<and> calculate_npl_ratio c = Inr 0
        \<and> calculate_credit_exposure_by_sector c = Inr []
        \<and> get_financial_summary c = Inr zero_summary
        \<and> calculate_bank_risk_index c = Inr (Finite 30))"
  using calculators_return [of c] risk_body_returns [of c]
    statements_fail [of c e] accounts_fail [of c e] loans_fail [of c e]
    summary_fail [of c e] loans_fail_risk_index [of c e]
  by (simp add: sqe_simps)

theorem calculators_swallow_query_errors_witness:
  "calculate_net_interest_margin broken_conn = Inr 0 \<and> calculate_roa broken_conn = Inr 0
   \<and> calculate_roe broken_conn = Inr 0 \<and> calculate_cost_to_income_ratio broken_conn = Inr 0
   \<and> calculate_loan_to_deposit_ratio broken_conn = Inr 0
   \<and> calculate_default_rate broken_conn = Inr (0, 0) \<and> calculate_npl_ratio broken_conn = Inr 0
   \<and> calculate_credit_exposure_by_sector broken_conn = Inr []
   \<and> get_financial_summary broken_conn = Inr zero_summary
   \<and> calculate_bank_risk_index broken_conn = Inr (Finite 30)"
proof -
  have "financial_statements broken_conn = Inl SqliteError"
    "accounts broken_conn = Inl SqliteError" "loans broken_conn = Inl SqliteError"
    by (simp_all add: broken_conn_def)
  with calculators_swallow_query_errors [of broken_conn SqliteError] show ?thesis
    by blast
qed

section \<open>Zero denominators and rounding\<close>

lemmas query_defs = deposits_query_def loans_query_def total_deposits_query_def
  total_loans_query_def defaulted_amount_query_def defaulted_count_query_def
  sql_sum_def sql_coalesce_def safe_get_value_def

lemmas spec_defs = spec_total_deposits_def spec_total_loans_def spec_total_assets_def
  spec_window_def spec_total_income_def table_rows_def

lemma total_assets_of_eq:
  "accounts c = Inr as \<Longrightarrow> loans c = Inr ls \<Longrightarrow> total_assets_of c = Inr (spec_total_assets c)"
  by (simp add: total_assets_of_def sqe_simps query_defs spec_defs)

lemma total_assets_of_cases:
  "(\<exists>e. total_assets_of c = Inl e) \<or> total_assets_of c = Inr (spec_total_assets c)"
proof (cases "accounts c")
  case (Inl e) then show ?thesis by (simp add: total_assets_of_def sqe_simps)
next
  case a: (Inr as)
  show ?thesis
  proof (cases "loans c")
    case (Inl e) with a show ?thesis by (simp add: total_assets_of_def sqe_simps)
  next
    case (Inr ls) with a show ?thesis using total_assets_of_eq by blast
  qed
qed

lemma nim_zero_assets: "spec_total_assets c = 0 \<Longrightarrow> calculate_net_interest_margin c = Inr 0"
  using total_assets_of_cases [of c]
  by (auto simp add: calculate_net_interest_margin_def nim_body_def sqe_simps Let_def
      safe_query_execution_def split: sum.splits)

lemma roa_zero_assets: "spec_total_assets c = 0 \<Longrightarrow> calculate_roa c = Inr 0"
  using total_assets_of_cases [of c]
  by (auto simp add: calculate_roa_def roa_body_def Let_def
      safe_query_execution_def split: sum.splits)

lemma roe_zero_equity:
  "spec_total_assets c * EQUITY_PERCENTAGE = 0 \<Longrightarrow> calculate_roe c = Inr 0"
  using total_assets_of_cases [of c]
  by (auto simp add: calculate_roe_def roe_body_def Let_def
      safe_query_execution_def split: sum.splits)

lemma cir_zero_income: "spec_total_income c = 0 \<Longrightarrow> calculate_cost_to_income_ratio c = Inr 0"
  by (auto simp add: calculate_cost_to_income_ratio_def cir_body_def Let_def spec_defs
      safe_query_execution_def split: sum.splits)

lemma ldr_zero_deposits:
  "spec_total_deposits c = 0 \<Longrightarrow> calculate_loan_to_deposit_ratio c = Inr 0"
  by (auto simp add: calculate_loan_to_deposit_ratio_def ldr_body_def Let_def spec_defs
      query_defs safe_query_execution_def split: sum.splits)

lemma default_rate_no_loans:
  "length (table_rows (loans c)) = 0 \<Longrightarrow> calculate_default_rate c = Inr (0, 0)"
  by (auto simp add: calculate_default_rate_def default_rate_body_def Let_def spec_defs
      query_defs safe_query_execution_def split: sum.splits)

lemma calculators_two_decimals:
  "\<exists>v. calculate_net_interest_margin c = Inr v \<and> two_decimals v"
  "\<exists>v. calculate_roa c = Inr v \<and> two_decimals v"
  "\<exists>v. calculate_roe c = Inr v \<and> two_decimals v"
  "\<exists>v. calculate_cost_to_income_ratio c = Inr v \<and> two_decimals v"
  "\<exists>v. calculate_loan_to_deposit_ratio c = Inr v \<and> two_decimals v"
  "\<exists>a b. calculate_default_rate c = Inr (a, b) \<and> two_decimals a \<and> two_decimals b"
  "\<exists>v. calculate_npl_ratio c = Inr v \<and> two_decimals v"
  by (auto simp add: calc_defs body_defs Let_def two_decimals_py_round2 two_decimals_0
      safe_query_execution_def split: sum.splits prod.splits)

text \<open>
  Claim C3. A zero denominator gives 0.0 without raising: total assets for NIM and ROA,
  equity for ROE, total income for CIR, total deposits for LDR, the loan count for the
  default rate, which is the pair (0.0, 0.0) on an empty loans table. Every value a
  metric calculator returns is a multiple of 0.01.
\<close>

theorem zero_denominator_fallback:
  "(spec_total_assets c = 0 \<longrightarrow>
      calculate_net_interest_margin c = Inr 0 \<and> calculate_roa c = Inr 0)
   \<and> (spec_total_assets c * EQUITY_PERCENTAGE = 0 \<longrightarrow> calculate_roe c = Inr 0)
   \<and> (spec_total_income c = 0 \<longrightarrow> calculate_cost_to_income_ratio c = Inr 0)
   \<and> (spec_total_deposits c = 0 \<longrightarrow> calculate_loan_to_deposit_ratio c = Inr 0)
   \<and> (length (table_rows (loans c)) = 0 \<longrightarrow> calculate_default_rate c = Inr (0, 0))
   \<and> (\<exists>v. calculate_net_interest_margin c = Inr v \<and> two_decimals v)
   \<and> (\<exists>v. calculate_roa c = Inr v \<and> two_decimals v)
   \<and> (\<exists>v. calculate_roe c = Inr v \<and> two_decimals v)
   \<and> (\<exists>v. calculate_cost_to_income_ratio c = Inr v \<and> two_decimals v)
   \<and> (\<exists>v. calculate_loan_to_deposit_ratio c = Inr v \<and> two_decimals v)
   \<and> (\<exists>a b. calculate_default_rate c = Inr (a, b) \<and> two_decimals a \<and> two_decimals b)
   \<and> (\<exists>v. calculate_npl_ratio c = Inr v \<and> two_decimals v)"
  using nim_zero_assets [of c] roa_zero_assets [of c] roe_zero_equity [of c]
    cir_zero_income [of c] ldr_zero_deposits [of c] default_rate_no_loans [of c]
    calculators_two_decimals [of c]
  by blast

theorem zero_denominator_fallback_witness:
  "calculate_net_interest_margin empty_conn = Inr 0 \<and> calculate_roa empty_conn = Inr 0
   \<and> calculate_roe empty_conn = Inr 0 \<and> calculate_cost_to_income_ratio empty_conn = Inr 0
   \<and> calculate_loan_to_deposit_ratio empty_conn = Inr 0
   \<and> calculate_default_rate empty_conn = Inr (0, 0)"
proof -
  have "spec_total_assets empty_conn = 0" "spec_total_income empty_conn = 0"
    "spec_total_deposits empty_conn = 0" "length (table_rows (loans empty_conn)) = 0"
    by (simp_all add: spec_defs empty_conn_def deposit_balances_def recent_periods_query_def)
  with zero_denominator_fallback [of empty_conn] show ?thesis by simp
qed

section \<open>Sector exposures\<close>

lemma sum_list_pos_nonempty:
  "list_all (\<lambda>x. 0 < x) xs \<Longrightarrow> xs \<noteq> [] \<Longrightarrow> 0 < sum_list (xs :: real list)"
  by (induction xs) (auto simp add: add_pos_nonneg sum_list_nonneg list_all_iff less_imp_le)

lemma sum_list_nonneg': "list_all (\<lambda>x. 0 \<le> x) xs \<Longrightarrow> 0 \<le> sum_list (xs :: real list)"
  by (induction xs) auto

lemma sum_squares_le:
  "list_all (\<lambda>x. 0 \<le> x) xs \<Longrightarrow> (\<Sum>x\<leftarrow>xs. x * x) \<le> sum_list xs * sum_list (xs :: real list)"
proof (induction xs)
  case Nil
  then show ?case by simp
next
  case (Cons x xs)
  then have x: "0 \<le> x" and s: "0 \<le> sum_list xs"
    and ih: "(\<Sum>x\<leftarrow>xs. x * x) \<le> sum_list xs * sum_list xs"
    by (simp_all add: sum_list_nonneg')
  have "(x + sum_list xs) * (x + sum_list xs)
      = x * x + 2 * (x * sum_list xs) + sum_list xs * sum_list xs"
    by (simp add: algebra_simps)
  moreover have "0 \<le> x * sum_list xs" using x s by simp
  ultimately show ?case using ih by simp
qed

lemma sum_squares_eq_iff:
  assumes "list_all (\<lambda>x. 0 < x) xs"
  shows "(\<Sum>x\<leftarrow>xs. x * x) = sum_list xs * sum_list (xs :: real list) \<longleftrightarrow> length xs \<le> 1"
proof (cases xs)
  case Nil
  then show ?thesis by simp
next
  case (Cons x ys)
  with assms have x: "0 < x" and ys: "list_all (\<lambda>x. 0 < x) ys" by simp_all
  from ys have ys0: "list_all (\<lambda>x. 0 \<le> x) ys" by (simp add: list_all_iff less_imp_le)
  have expand: "(x + sum_list ys) * (x + sum_list ys)
      = x * x + 2 * (x * sum_list ys) + sum_list ys * sum_list ys"
    by (simp add: algebra_simps)
  show ?thesis
  proof (cases ys)
    case Nil
    with Cons show ?thesis by simp
  next
    case (Cons y zs)
    then have "0 < sum_list ys" using ys sum_list_pos_nonempty [of ys] by simp
    then have "0 < x * sum_list ys" using x by simp
    moreover have "(\<Sum>x\<leftarrow>ys. x * x) \<le> sum_list ys * sum_list ys"
      using sum_squares_le [OF ys0] .
    ultimately have "(\<Sum>x\<leftarrow>x # ys. x * x) < sum_list (x # ys) * sum_list (x # ys)"
      using expand by simp
    then show ?thesis using \<open>xs = x # ys\<close> Cons by simp
  qed
qed

lemma np_sum_skipna_Finite: "np_sum_skipna (map Finite xs) = Finite (sum_list xs)"
  by (induction xs) (simp_all add: np_sum_skipna_def)

lemma exposure_pct_column_Finite:
  "sum_list es \<noteq> 0 \<Longrightarrow>
     exposure_pct_column es = map (\<lambda>x. Finite (x / sum_list es * 100)) es"
  by (simp add: exposure_pct_column_def)

lemma sum_list_times_const: "(\<Sum>x\<leftarrow>xs. f x * c) = (\<Sum>x\<leftarrow>xs. f x) * (c :: real)"
  by (induction xs) (simp_all add: algebra_simps)

lemma sum_list_pct:
  assumes nz: "sum_list es \<noteq> 0"
  shows "(\<Sum>x\<leftarrow>es. x / sum_list es * 100) = (100 :: real)"
proof -
  define k where "k = 100 / sum_list es"
  have "(\<lambda>x. x / sum_list es * 100) = (\<lambda>x. x * k)"
    by (simp add: fun_eq_iff k_def)
  then have "(\<Sum>x\<leftarrow>es. x / sum_list es * 100) = (\<Sum>x\<leftarrow>es. x * k)"
    by (simp only:)
  also have "\<dots> = sum_list es * k"
    using sum_list_times_const [of "\<lambda>x. x" k es] by simp
  also have "\<dots> = 100" using nz by (simp add: k_def)
  finally show ?thesis .
qed

lemma sum_list_pct_squares:
  assumes nz: "sum_list es \<noteq> 0"
  shows "(\<Sum>x\<leftarrow>es. (x / sum_list es * 100) * (x / sum_list es * 100))
       = (\<Sum>x\<leftarrow>es. x * x) / (sum_list es * sum_list es) * (10000 :: real)"
proof -
  define k where "k = 10000 / (sum_list es * sum_list es)"
  have "(\<lambda>x. (x / sum_list es * 100) * (x / sum_list es * 100)) = (\<lambda>x. (x * x) * k)"
    by (simp add: fun_eq_iff k_def)
  then have "(\<Sum>x\<leftarrow>es. (x / sum_list es * 100) * (x / sum_list es * 100))
      = (\<Sum>x\<leftarrow>es. (x * x) * k)"
    by (simp only:)
  also have "\<dots> = (\<Sum>x\<leftarrow>es. x * x) * k"
    by (rule sum_list_times_const)
  finally show ?thesis by (simp add: k_def)
qed


lemma length_exposure_query:
  "length (exposure_query ls) = length (remdups (map sector ls))"
  by (simp add: exposure_query_def)

lemma exposure_query_Nil_iff: "exposure_query ls = [] \<longleftrightarrow> ls = []"
proof -
  have "exposure_query ls = [] \<longleftrightarrow> length (exposure_query ls) = 0" by simp
  also have "\<dots> \<longleftrightarrow> ls = []" by (simp only: length_exposure_query) simp
  finally show ?thesis .
qed

lemma exposure_query_positive:
  assumes pos: "list_all (\<lambda>l. 0 < loan_amount l) ls"
  shows "list_all (\<lambda>x. 0 < x) (map total_exposure (exposure_query ls))"
proof -
  have "0 < total_exposure g" if g: "g \<in> set (exposure_query ls)" for g
  proof -
    from g obtain l0 where l0: "l0 \<in> set ls"
      and geq: "total_exposure g =
        sum_list (map loan_amount (filter (\<lambda>l. sector l = sector l0) ls))"
      by (auto simp add: exposure_query_def Let_def)
    define s where "s = sector l0"
    from l0 have ne: "map loan_amount (filter (\<lambda>l. sector l = s) ls) \<noteq> []"
      by (auto simp add: filter_empty_conv s_def)
    note geq = geq [folded s_def]
    have "list_all (\<lambda>x. 0 < x) (map loan_amount (filter (\<lambda>l. sector l = s) ls))"
      using pos by (auto simp add: list_all_iff)
    from sum_list_pos_nonempty [OF this ne] geq show ?thesis by simp
  qed
  then show ?thesis by (auto simp add: list_all_iff)
qed

lemma exposure_query_sorted:
  "sorted_wrt (\<lambda>a b. total_exposure b \<le> total_exposure a) (exposure_query ls)"
proof -
  have "sorted (map (\<lambda>g. - total_exposure g) (exposure_query ls))"
    unfolding exposure_query_def by (rule sorted_sort_key)
  then show ?thesis by (simp add: sorted_map)
qed

lemma length_exposure_pct_column: "length (exposure_pct_column es) = length es"
  by (simp add: exposure_pct_column_def)

lemma exposure_rows:
  assumes "calculate_credit_exposure_by_sector c = Inr rows"
  shows "map sector_group.truncate rows = exposure_query (table_rows (loans c))"
    and "map exposure_pct rows =
      exposure_pct_column (map total_exposure (exposure_query (table_rows (loans c))))"
proof -
  let ?df = "exposure_query (table_rows (loans c))"
  let ?mk = "\<lambda>(g, pct).
                 \<lparr>row_sector = row_sector g,
                  loan_count = loan_count g,
                  total_exposure = total_exposure g,
                  defaulted_exposure = defaulted_exposure g,
                  defaulted_count = defaulted_count g,
                  default_rate =
                    np_mul (np_div (Finite (real (defaulted_count g)))
                                   (Finite (real (loan_count g)))) (Finite 100),
                  exposure_pct = pct\<rparr>"
  let ?ps = "exposure_pct_column (map total_exposure ?df)"
  have rows: "rows = map ?mk (zip ?df ?ps)"
    using assms
    by (auto simp add: calculate_credit_exposure_by_sector_def exposure_body_def
        safe_query_execution_def table_rows_def exposure_query_Nil_iff exposure_query_def
        exposure_pct_column_def
        split: sum.splits if_splits)
  have len: "length ?ps = length ?df" by (simp add: length_exposure_pct_column)
  have "map sector_group.truncate rows = map fst (zip ?df ?ps)"
    unfolding rows by (simp add: case_prod_beta sector_group.truncate_def)
  then show "map sector_group.truncate rows = ?df" using len by simp
  have "map exposure_pct rows = map snd (zip ?df ?ps)"
    unfolding rows by (simp add: case_prod_beta)
  then show "map exposure_pct rows = ?ps" using len by simp
qed


lemma positive_loans_exposures:
  assumes "loan_amounts_positive c"
  shows "list_all (\<lambda>x. 0 < x) (map total_exposure (exposure_query (table_rows (loans c))))"
  using assms exposure_query_positive by (simp add: loan_amounts_positive_def)

section \<open>NPL ratio and default rate by value\<close>

lemma npl_value:
  assumes "loans c = Inr ls"
  shows "calculate_npl_ratio c =
     Inr (if ls = [] \<or> sum_list (map loan_amount ls) = 0 then 0
          else py_round2 ((\<Sum>l\<leftarrow>ls. if default_flag l = 1 then loan_amount l else 0)
                 / sum_list (map loan_amount ls) * 100))"
  using assms
  by (simp add: calculate_npl_ratio_def npl_body_def sqe_simps query_defs Let_def)

lemma default_rate_value:
  assumes "loans c = Inr ls"
  shows "calculate_default_rate c =
     Inr (if ls = [] then (0, 0)
          else (py_round2 (real (length (filter (\<lambda>l. default_flag l = 1) ls))
                  / real (length ls) * 100),
                py_round2 (if 0 < sum_list (map loan_amount ls)
                  then (\<Sum>l\<leftarrow>ls. if default_flag l = 1 then loan_amount l else 0)
                    / sum_list (map loan_amount ls) * 100
                  else 0)))"
  using assms
  by (simp add: calculate_default_rate_def default_rate_body_def sqe_simps query_defs Let_def)

lemma npl_test_db: "calculate_npl_ratio test_db = Inr (375 / 10)"
proof -
  have "loans test_db = Inr
        [\<lparr>sector = ''Technology'', loan_amount = 500000, default_flag = 0\<rparr>,
         \<lparr>sector = ''Retail'', loan_amount = 300000, default_flag = 1\<rparr>]"
    by (simp add: test_db_def)
  from npl_value [OF this] show ?thesis
    by (simp add: py_round2_def round_half_even_def)
qed

section \<open>Risk index\<close>

lemma np_square_cases:
  "np_mul p p = NaN \<or> np_mul p p = PosInf \<or> (\<exists>v. np_mul p p = Finite v \<and> 0 \<le> v)"
  by (cases p) simp_all

lemma np_sum_skipna_Cons:
  "np_sum_skipna (x # xs) = (if x = NaN then np_sum_skipna xs else np_add x (np_sum_skipna xs))"
  by (simp add: np_sum_skipna_def)

lemma np_sum_skipna_nonneg:
  assumes "\<And>x. x \<in> set xs \<Longrightarrow> x = NaN \<or> x = PosInf \<or> (\<exists>v. x = Finite v \<and> 0 \<le> v)"
  shows "np_sum_skipna xs = PosInf \<or> (\<exists>v. np_sum_skipna xs = Finite v \<and> 0 \<le> v)"
  using assms
proof (induction xs)
  case Nil
  then show ?case by (simp add: np_sum_skipna_def)
next
  case (Cons x xs)
  then have ih: "np_sum_skipna xs = PosInf \<or> (\<exists>v. np_sum_skipna xs = Finite v \<and> 0 \<le> v)"
    by simp
  from Cons.prems have "x = NaN \<or> x = PosInf \<or> (\<exists>v. x = Finite v \<and> 0 \<le> v)" by simp
  with ih show ?case by (auto simp add: np_sum_skipna_Cons)
qed

lemma hhi_score_cases:
  "hhi_score es = PosInf \<or> (\<exists>v. hhi_score es = Finite v \<and> 0 \<le> v)"
proof (cases "es = []")
  case True
  then show ?thesis by (simp add: hhi_score_def)
next
  case False
  let ?h = "np_sum_skipna (map (\<lambda>p. np_mul p p) (exposure_pct_column es))"
  have "?h = PosInf \<or> (\<exists>v. ?h = Finite v \<and> 0 \<le> v)"
    by (rule np_sum_skipna_nonneg) (use np_square_cases in auto)
  then show ?thesis
  proof
    assume "?h = PosInf"
    with False have "hhi_score es = PosInf"
      by (simp add: hhi_score_def np_signed_inf_def)
    then show ?thesis by simp
  next
    assume "\<exists>v. ?h = Finite v \<and> 0 \<le> v"
    then obtain v where v: "?h = Finite v" "0 \<le> v" by blast
    with False have "hhi_score es = Finite (v / 10000 * 10)"
      by (simp add: hhi_score_def)
    moreover have "0 \<le> v / 10000 * 10" using v(2) by simp
    ultimately show ?thesis by blast
  qed
qed

lemma hhi_score_positive:
  assumes pos: "list_all (\<lambda>x. 0 < x) es" and ne: "es \<noteq> []"
  shows "hhi_score es = Finite (herfindahl es * 10)"
proof -
  from assms have nz: "sum_list es \<noteq> 0" using sum_list_pos_nonempty [of es] by simp
  let ?f = "\<lambda>x. (x / sum_list es * 100) * (x / sum_list es * 100)"
  have "map (\<lambda>p. np_mul p p) (exposure_pct_column es) = map Finite (map ?f es)"
    using nz by (simp add: exposure_pct_column_Finite)
  moreover have "np_sum_skipna (map Finite (map ?f es)) = Finite (sum_list (map ?f es))"
    by (rule np_sum_skipna_Finite)
  moreover have "sum_list (map ?f es) = herfindahl es * 10000"
    unfolding herfindahl_def by (rule sum_list_pct_squares [OF nz])
  ultimately have "np_sum_skipna (map (\<lambda>p. np_mul p p) (exposure_pct_column es))
      = Finite (herfindahl es * 10000)"
    by (simp only:)
  then show ?thesis using ne by (simp add: hhi_score_def)
qed

lemma herfindahl_bounds:
  assumes pos: "list_all (\<lambda>x. 0 < x) es" and ne: "es \<noteq> []"
  shows "0 \<le> herfindahl es" and "herfindahl es \<le> 1"
    and "herfindahl es = 1 \<longleftrightarrow> length es \<le> 1"
proof -
  from pos have nn: "list_all (\<lambda>x. 0 \<le> x) es" by (simp add: list_all_iff less_imp_le)
  have s: "0 < sum_list es" using sum_list_pos_nonempty [OF pos ne] .
  then have d: "0 < sum_list es * sum_list es" by simp
  have n: "0 \<le> (\<Sum>x\<leftarrow>es. x * x)" by (rule sum_list_nonneg) auto
  show "0 \<le> herfindahl es"
    unfolding herfindahl_def using n d by (rule divide_nonneg_pos)
  show "herfindahl es \<le> 1"
    unfolding herfindahl_def using sum_squares_le [OF nn] d by simp
  have "herfindahl es = 1 \<longleftrightarrow> (\<Sum>x\<leftarrow>es. x * x) = sum_list es * sum_list es"
    unfolding herfindahl_def using d s by (auto simp add: divide_eq_1_iff)
  then show "herfindahl es = 1 \<longleftrightarrow> length es \<le> 1"
    by (simp only: sum_squares_eq_iff [OF pos])
qed

lemma hhi_score_eq_10_iff:
  assumes pos: "list_all (\<lambda>x. 0 < x) es"
  shows "hhi_score es = Finite 10 \<longleftrightarrow> length es \<le> 1"
proof (cases "es = []")
  case True
  then show ?thesis by (simp add: hhi_score_def)
next
  case False
  have "hhi_score es = Finite 10 \<longleftrightarrow> herfindahl es = 1"
    using hhi_score_positive [OF pos False] by simp
  then show ?thesis by (simp only: herfindahl_bounds(3) [OF pos False])
qed

lemma concentration_score_eq:
  assumes "risk_contributions c = Inr s"
  shows "concentration_score s =
     hhi_score (map total_exposure (exposure_query (table_rows (loans c))))"
proof -
  obtain rows where rows: "calculate_credit_exposure_by_sector c = Inr rows"
    using calculators_return(8) by blast
  have "map total_exposure rows = map total_exposure (map sector_group.truncate rows)"
    by (simp add: sector_group.truncate_def)
  then have es: "map total_exposure rows
      = map total_exposure (exposure_query (table_rows (loans c)))"
    by (simp only: exposure_rows(1) [OF rows])
  have "concentration_score s = hhi_score (map total_exposure rows)"
    using assms rows
    by (auto simp add: risk_contributions_def hhi_score_def Let_def
        split: sum.splits prod.splits)
  then show ?thesis by (simp only: es)
qed

lemma risk_contributions_scores:
  assumes "risk_contributions c = Inr s"
  shows "\<exists>npl ldr by_count by_value.
     calculate_npl_ratio c = Inr npl \<and> calculate_loan_to_deposit_ratio c = Inr ldr
     \<and> calculate_default_rate c = Inr (by_count, by_value)
     \<and> npl_score s = min (npl * 10) 40
     \<and> ldr_score s = min (if ldr < 80 then (80 - ldr) * (5 / 10)
                          else if 100 < ldr then (ldr - 100) * (5 / 10) else 0) 20
     \<and> default_score s = min (by_value * 3) 30"
proof -
  obtain npl where n: "calculate_npl_ratio c = Inr npl"
    using calculators_return(7) by blast
  obtain ldr where l: "calculate_loan_to_deposit_ratio c = Inr ldr"
    using calculators_return(5) by blast
  obtain by_count by_value where d: "calculate_default_rate c = Inr (by_count, by_value)"
    using calculators_return(6) [of c] by (metis surj_pair)
  obtain rows where r: "calculate_credit_exposure_by_sector c = Inr rows"
    using calculators_return(8) by blast
  from assms have "npl_score s = min (npl * 10) 40
     \<and> ldr_score s = min (if ldr < 80 then (80 - ldr) * (5 / 10)
                          else if 100 < ldr then (ldr - 100) * (5 / 10) else 0) 20
     \<and> default_score s = min (by_value * 3) 30"
    unfolding risk_contributions_def n l d r by auto
  with n l d show ?thesis by blast
qed

lemma contributions_upper:
  assumes "risk_contributions c = Inr s"
  shows "npl_score s \<le> 40" "ldr_score s \<le> 20" "default_score s \<le> 30" "0 \<le> ldr_score s"
proof -
  from risk_contributions_scores [OF assms] obtain npl ldr by_count by_value where
    "npl_score s = min (npl * 10) 40"
    "ldr_score s = min (if ldr < 80 then (80 - ldr) * (5 / 10)
                          else if 100 < ldr then (ldr - 100) * (5 / 10) else 0) 20"
    "default_score s = min (by_value * 3) 30"
    by blast
  then show "npl_score s \<le> 40" "ldr_score s \<le> 20" "default_score s \<le> 30"
    "0 \<le> ldr_score s"
    by (simp_all add: min_def)
qed

lemma concentration_cases:
  assumes "risk_contributions c = Inr s"
  shows "concentration_score s = PosInf \<or> (\<exists>k. concentration_score s = Finite k \<and> 0 \<le> k)"
  unfolding concentration_score_eq [OF assms] by (rule hhi_score_cases)

lemma risk_index_value:
  assumes "risk_contributions c = Inr s"
  shows "calculate_bank_risk_index c =
     Inr (np_round2 (py_min (np_add (Finite (npl_score s + ldr_score s + default_score s))
                                    (concentration_score s)) (Finite 100)))"
  using assms by (simp add: calculate_bank_risk_index_def risk_body_def Let_def)

lemma positive_samples:
  "loan_amounts_positive empty_conn" "loan_amounts_positive test_db"
  "loan_amounts_positive single_sector_db"
  by (simp_all add: loan_amounts_positive_def table_rows_def empty_conn_def test_db_def
      single_sector_db_def)

text \<open>
  With no loan data the concentration contribution is 10. In exact arithmetic, with loan
  amounts that are all positive, it is 10 if and only if one sector occurs. The
  equivalence does not speak of doubles, where the share of a sector much smaller than
  the total can be lost in the rounding.
\<close>

lemma concentration_single_sector:
  "\<exists>s. risk_contributions c = Inr s
     \<and> (table_rows (loans c) = [] \<longrightarrow> concentration_score s = Finite 10)
     \<and> (table_rows (loans c) \<noteq> [] \<and> loan_amounts_positive c \<longrightarrow>
          (concentration_score s = Finite 10
             \<longleftrightarrow> length (remdups (map sector (table_rows (loans c)))) = 1))"
proof -
  obtain s where s: "risk_contributions c = Inr s"
    using risk_contributions_return by blast
  let ?ls = "table_rows (loans c)"
  let ?es = "map total_exposure (exposure_query ?ls)"
  note conc = concentration_score_eq [OF s]
  have len: "length ?es = length (remdups (map sector ?ls))"
    by (simp add: length_exposure_query)
  have empty: "concentration_score s = Finite 10" if "?ls = []"
  proof -
    from that have "?es = []" by (simp add: exposure_query_Nil_iff)
    then show ?thesis unfolding conc by (simp add: hhi_score_def)
  qed
  have full: "concentration_score s = Finite 10 \<longleftrightarrow> length (remdups (map sector ?ls)) = 1"
    if ne: "?ls \<noteq> []" and pos: "loan_amounts_positive c"
  proof -
    from ne have "?es \<noteq> []" by (simp add: exposure_query_Nil_iff)
    then have "1 \<le> length ?es" by (cases ?es) simp_all
    moreover have "concentration_score s = Finite 10 \<longleftrightarrow> length ?es \<le> 1"
      unfolding conc by (rule hhi_score_eq_10_iff [OF positive_loans_exposures [OF pos]])
    ultimately show ?thesis unfolding len by linarith
  qed
  from s empty full show ?thesis by blast
qed

lemma concentration_single_sector_example:
  "(\<exists>s. risk_contributions empty_conn = Inr s \<and> concentration_score s = Finite 10)
   \<and> (\<exists>s. risk_contributions single_sector_db = Inr s \<and> concentration_score s = Finite 10)
   \<and> (\<exists>s. risk_contributions test_db = Inr s \<and> concentration_score s \<noteq> Finite 10)"
proof -
  have e: "table_rows (loans empty_conn) = []"
    by (simp add: table_rows_def empty_conn_def)
  have o: "table_rows (loans single_sector_db) \<noteq> []"
    "length (remdups (map sector (table_rows (loans single_sector_db)))) = 1"
    by (simp_all add: table_rows_def single_sector_db_def)
  have t: "table_rows (loans test_db) \<noteq> []"
    "length (remdups (map sector (table_rows (loans test_db)))) \<noteq> 1"
    by (simp_all add: table_rows_def test_db_def)
  from concentration_single_sector [of empty_conn] e
  have "\<exists>s. risk_contributions empty_conn = Inr s \<and> concentration_score s = Finite 10"
    by blast
  moreover from concentration_single_sector [of single_sector_db] o positive_samples(3)
  have "\<exists>s. risk_contributions single_sector_db = Inr s \<and> concentration_score s = Finite 10"
    by blast
  moreover from concentration_single_sector [of test_db] t positive_samples(2)
  have "\<exists>s. risk_contributions test_db = Inr s \<and> concentration_score s \<noteq> Finite 10"
    by blast
  ultimately show ?thesis by blast
qed

section \<open>Analysis window\<close>

lemma distinct_map_sort_key: "distinct (map f (sort_key f xs)) = distinct (map f xs)"
  by (induction xs) (simp_all add: distinct_insort_key)

lemma sum_list_map_insort_key:
  "sum_list (map g (insort_key f x xs)) = (g x :: real) + sum_list (map g xs)"
  by (induction xs) simp_all

lemma sum_list_map_sort_key: "sum_list (map g (sort_key f xs)) = (sum_list (map g xs) :: real)"
  by (induction xs) (simp_all add: sum_list_map_insort_key)

lemma newest_first_sorted:
  assumes "distinct (map month fs)"
  shows "sorted_wrt (\<lambda>p q. month q < month p) (rev (sort_key month fs))"
proof -
  have "sorted_wrt (<) (map month (sort_key month fs))"
    using assms by (simp add: strict_sorted_iff distinct_map_sort_key)
  then have "sorted_wrt (\<lambda>p q. month p < month q) (sort_key month fs)"
    by (simp add: sorted_wrt_map)
  then show ?thesis by (simp add: sorted_wrt_rev)
qed

lemma recent_periods_length:
  "length (recent_periods_query fs) = min MONTHS_FOR_ANALYSIS (length fs)"
  by (simp add: recent_periods_query_def)

lemma recent_periods_subset: "set (recent_periods_query fs) \<subseteq> set fs"
  using set_take_subset [of MONTHS_FOR_ANALYSIS "rev (sort_key month fs)"]
  by (simp add: recent_periods_query_def)

lemma recent_periods_sorted:
  assumes "distinct (map month fs)"
  shows "sorted_wrt (\<lambda>p q. month q < month p) (recent_periods_query fs)"
proof -
  let ?l = "rev (sort_key month fs)"
  have "sorted_wrt (\<lambda>p q. month q < month p)
          (take MONTHS_FOR_ANALYSIS ?l @ drop MONTHS_FOR_ANALYSIS ?l)"
    using newest_first_sorted [OF assms] by simp
  then show ?thesis
    unfolding recent_periods_query_def sorted_wrt_append by blast
qed

lemma recent_periods_newest:
  assumes "distinct (map month fs)"
    and p: "p \<in> set (recent_periods_query fs)"
    and q: "q \<in> set fs" "q \<notin> set (recent_periods_query fs)"
  shows "month q < month p"
proof -
  let ?l = "rev (sort_key month fs)"
  have split: "sorted_wrt (\<lambda>p q. month q < month p)
          (take MONTHS_FOR_ANALYSIS ?l @ drop MONTHS_FOR_ANALYSIS ?l)"
    using newest_first_sorted [OF assms(1)] by simp
  have "set ?l = set (take MONTHS_FOR_ANALYSIS ?l) \<union> set (drop MONTHS_FOR_ANALYSIS ?l)"
    using set_append [of "take MONTHS_FOR_ANALYSIS ?l" "drop MONTHS_FOR_ANALYSIS ?l"]
    by simp
  with q have "q \<in> set (drop MONTHS_FOR_ANALYSIS ?l)"
    by (simp add: recent_periods_query_def)
  with p split show ?thesis
    unfolding recent_periods_query_def sorted_wrt_append by blast
qed

lemma recent_periods_all:
  assumes "length fs \<le> MONTHS_FOR_ANALYSIS"
  shows "set (recent_periods_query fs) = set fs"
    and "sum_list (map g (recent_periods_query fs)) = (sum_list (map g fs) :: real)"
proof -
  from assms have eq: "recent_periods_query fs = rev (sort_key month fs)"
    by (simp add: recent_periods_query_def)
  show "set (recent_periods_query fs) = set fs" by (simp add: eq)
  have "sum_list (map g (rev (sort_key month fs))) = sum_list (rev (map g (sort_key month fs)))"
    by (simp only: rev_map)
  also have "\<dots> = sum_list (map g fs)"
    by (simp only: sum_list_rev sum_list_map_sort_key)
  finally show "sum_list (map g (recent_periods_query fs)) = sum_list (map g fs)"
    by (simp only: eq)
qed

lemma windowed_values:
  assumes fs: "financial_statements c = Inr fs"
  shows "calculate_cost_to_income_ratio c =
      Inr (if spec_total_income c = 0 then 0
           else py_round2 (sum_list (map operating_cost (spec_window c))
                  / spec_total_income c * 100))"
    and "accounts c = Inr as \<Longrightarrow> loans c = Inr ls \<Longrightarrow>
      calculate_net_interest_margin c =
        Inr (if spec_total_assets c = 0 then 0
             else py_round2 ((sum_list (map interest_income (spec_window c))
                    - sum_list (map interest_expense (spec_window c)))
                    / spec_total_assets c * 100))"
    and "accounts c = Inr as \<Longrightarrow> loans c = Inr ls \<Longrightarrow>
      calculate_roa c =
        Inr (if spec_total_assets c = 0 then 0
             else py_round2 (sum_list (map net_profit (spec_window c))
                    / spec_total_assets c * 100))"
    and "accounts c = Inr as \<Longrightarrow> loans c = Inr ls \<Longrightarrow>
      calculate_roe c =
        Inr (if spec_total_assets c * EQUITY_PERCENTAGE = 0 then 0
             else py_round2 (sum_list (map net_profit (spec_window c))
                    / (spec_total_assets c * EQUITY_PERCENTAGE) * 100))"
proof -
  have w: "spec_window c = recent_periods_query fs"
    by (simp add: spec_window_def table_rows_def fs)
  show "calculate_cost_to_income_ratio c =
      Inr (if spec_total_income c = 0 then 0
           else py_round2 (sum_list (map operating_cost (spec_window c))
                  / spec_total_income c * 100))"
    by (simp add: calculate_cost_to_income_ratio_def cir_body_def fs sqe_simps Let_def
        spec_total_income_def w)
  assume "accounts c = Inr as" "loans c = Inr ls"
  note ta = total_assets_of_eq [OF this]
  show "calculate_net_interest_margin c =
        Inr (if spec_total_assets c = 0 then 0
             else py_round2 ((sum_list (map interest_income (spec_window c))
                    - sum_list (map interest_expense (spec_window c)))
                    / spec_total_assets c * 100))"
    by (simp add: calculate_net_interest_margin_def nim_body_def fs sqe_simps Let_def w ta)
  show "calculate_roa c =
        Inr (if spec_total_assets c = 0 then 0
             else py_round2 (sum_list (map net_profit (spec_window c))
                    / spec_total_assets c * 100))"
    by (simp add: calculate_roa_def roa_body_def fs sqe_simps Let_def w ta)
  show "calculate_roe c =
        Inr (if spec_total_assets c * EQUITY_PERCENTAGE = 0 then 0
             else py_round2 (sum_list (map net_profit (spec_window c))
                    / (spec_total_assets c * EQUITY_PERCENTAGE) * 100))"
    by (simp add: calculate_roe_def roe_body_def fs sqe_simps Let_def w ta)
qed

lemma summary_values:
  assumes "financial_statements c = Inr fs" "accounts c = Inr as" "loans c = Inr ls"
  shows "\<exists>summary. get_financial_summary c = Inr summary
     \<and> summary ''interest_income'' = Some (sum_list (map interest_income (spec_window c)))
     \<and> summary ''interest_expense'' = Some (sum_list (map interest_expense (spec_window c)))
     \<and> summary ''fee_income'' = Some (sum_list (map fee_income (spec_window c)))
     \<and> summary ''operating_cost'' = Some (sum_list (map operating_cost (spec_window c)))
     \<and> summary ''net_profit'' = Some (sum_list (map net_profit (spec_window c)))"
proof -
  have w: "spec_window c = recent_periods_query fs"
    by (simp add: spec_window_def table_rows_def assms)
  show ?thesis
    by (simp add: get_financial_summary_def summary_body_def assms sqe_simps Let_def w)
qed

lemma long_db_window:
  "spec_window long_db = map test_period
        [''2024-12'', ''2024-11'', ''2024-10'', ''2024-09'', ''2024-08'', ''2024-07'',
         ''2024-06'', ''2024-05'', ''2024-04'', ''2024-03'', ''2024-02'', ''2024-01'']"
  by (simp add: spec_window_def table_rows_def long_db_def recent_periods_query_def
      MONTHS_FOR_ANALYSIS_def test_period_def)

lemma long_db_distinct: "distinct (map month (table_rows (financial_statements long_db)))"
  by (simp add: table_rows_def long_db_def test_period_def)

lemma long_db_assets: "spec_total_assets long_db = 1100000"
  by (simp add: spec_defs long_db_def deposit_balances_def)

text \<open>
  Claim C9. The windowed calculators (NIM, ROA, ROE, CIR, financial summary) sum over the
  analysis window: the \<^verbatim>\<open>MONTHS_FOR_ANALYSIS\<close> = 12 most recent periods of
  \<^verbatim>\<open>financial_statements\<close>, newest first, every period left out being older than
  every period kept, and all periods when there are at most 12. Months are unique, the
  column being the primary key.
\<close>

theorem analysis_window:
  "distinct (map month (table_rows (financial_statements c))) \<longrightarrow>
     MONTHS_FOR_ANALYSIS = 12
     \<and> length (spec_window c)
         = min MONTHS_FOR_ANALYSIS (length (table_rows (financial_statements c)))
     \<and> set (spec_window c) \<subseteq> set (table_rows (financial_statements c))
     \<and> sorted_wrt (\<lambda>p q. month q < month p) (spec_window c)
     \<and> (\<forall>p \<in> set (spec_window c).
          \<forall>q \<in> set (table_rows (financial_statements c)) - set (spec_window c).
            month q < month p)
     \<and> (length (table_rows (financial_statements c)) \<le> MONTHS_FOR_ANALYSIS \<longrightarrow>
          set (spec_window c) = set (table_rows (financial_statements c))
          \<and> sum_list (map net_profit (spec_window c))
              = sum_list (map net_profit (table_rows (financial_statements c))))
     \<and> (financial_statements c = Inr fs \<and> accounts c = Inr as \<and> loans c = Inr ls \<longrightarrow>
          calculate_net_interest_margin c =
            Inr (if spec_total_assets c = 0 then 0
                 else py_round2 ((sum_list (map interest_income (spec_window c))
                        - sum_list (map interest_expense (spec_window c)))
                        / spec_total_assets c * 100))
          \<and> calculate_roa c =
            Inr (if spec_total_assets c = 0 then 0
                 else py_round2 (sum_list (map net_profit (spec_window c))
                        / spec_total_assets c * 100))
          \<and> calculate_roe c =
            Inr (if spec_total_assets c * EQUITY_PERCENTAGE = 0 then 0
                 else py_round2 (sum_list (map net_profit (spec_window c))
                        / (spec_total_assets c * EQUITY_PERCENTAGE) * 100))
          \<and> calculate_cost_to_income_ratio c =
            Inr (if spec_total_income c = 0 then 0
                 else py_round2 (sum_list (map operating_cost (spec_window c))
                        / spec_total_income c * 100))
          \<and> (\<exists>summary. get_financial_summary c = Inr summary
                \<and> summary ''interest_income''
                    = Some (sum_list (map interest_income (spec_window c)))
                \<and> summary ''interest_expense''
                    = Some (sum_list (map interest_expense (spec_window c)))
                \<and> summary ''fee_income'' = Some (sum_list (map fee_income (spec_window c)))
                \<and> summary ''operating_cost''
                    = Some (sum_list (map operating_cost (spec_window c)))
                \<and> summary ''net_profit''
                    = Some (sum_list (map net_profit (spec_window c)))))"
  (is "?d \<longrightarrow> ?n \<and> ?len \<and> ?sub \<and> ?srt \<and> ?new \<and> ?all \<and> (?readable \<longrightarrow> ?formulas)")
proof
  let ?fs = "table_rows (financial_statements c)"
  assume d: ?d
  have w: "spec_window c = recent_periods_query ?fs" by (simp add: spec_window_def)
  have n: ?n by (simp add: MONTHS_FOR_ANALYSIS_def)
  have len: ?len unfolding w by (rule recent_periods_length)
  have sub: ?sub unfolding w by (rule recent_periods_subset)
  have srt: ?srt unfolding w by (rule recent_periods_sorted [OF d])
  have new: ?new unfolding w using recent_periods_newest [OF d] by blast
  have all: ?all
    unfolding w
    using recent_periods_all(1) [of ?fs] recent_periods_all(2) [of ?fs net_profit]
    by blast
  have calc: "?readable \<longrightarrow> ?formulas"
  proof
    assume ?readable
    then have f: "financial_statements c = Inr fs" and ac: "accounts c = Inr as"
      and lo: "loans c = Inr ls" by simp_all
    from windowed_values(2) [OF f ac lo] windowed_values(3) [OF f ac lo]
      windowed_values(4) [OF f ac lo] windowed_values(1) [OF f] summary_values [OF f ac lo]
    show ?formulas by (intro conjI)
  qed
  from n len sub srt new all calc
  show "?n \<and> ?len \<and> ?sub \<and> ?srt \<and> ?new \<and> ?all \<and> (?readable \<longrightarrow> ?formulas)"
    by (intro conjI)
qed

theorem analysis_window_witness:
  "length (spec_window long_db) = 12
   \<and> list_all (\<lambda>p. ''2023-12'' < month p) (spec_window long_db)
   \<and> calculate_roa long_db = Inr (32727 / 100)
   \<and> set (spec_window test_db) = set (table_rows (financial_statements test_db))"
proof -
  let ?old = "\<lparr>month = ''2023-12'', interest_income = 7, interest_expense = 7,
          fee_income = 7, operating_cost = 7, net_profit = 7\<rparr>"
  let ?months = "[''2024-01'', ''2024-02'', ''2024-03'', ''2024-04'', ''2024-05'', ''2024-06'',
         ''2024-07'', ''2024-08'', ''2024-09'', ''2024-10'', ''2024-11'', ''2024-12'']"
  have tables: "financial_statements long_db = Inr (?old # map test_period ?months)
      \<and> accounts long_db = Inr
        [\<lparr>account_type = ''checking'', balance = 100000\<rparr>,
         \<lparr>account_type = ''savings'', balance = 200000\<rparr>]
      \<and> loans long_db = Inr
        [\<lparr>sector = ''Technology'', loan_amount = 500000, default_flag = 0\<rparr>,
         \<lparr>sector = ''Retail'', loan_amount = 300000, default_flag = 1\<rparr>]"
    by (simp add: long_db_def)
  note aw = analysis_window [of long_db, THEN mp, OF long_db_distinct]
  note aw_len = aw [THEN conjunct2, THEN conjunct1]
  note aw_new = aw [THEN conjunct2, THEN conjunct2, THEN conjunct2, THEN conjunct2,
      THEN conjunct1]
  note aw_calc = aw [THEN conjunct2, THEN conjunct2, THEN conjunct2, THEN conjunct2,
      THEN conjunct2, THEN conjunct2, THEN mp, OF tables]
  have len: "length (spec_window long_db) = 12"
    using aw_len by (simp add: table_rows_def long_db_def MONTHS_FOR_ANALYSIS_def)
  have old: "?old \<in> set (table_rows (financial_statements long_db)) - set (spec_window long_db)"
    by (simp add: long_db_window) (simp add: table_rows_def long_db_def test_period_def)
  have "''2023-12'' < month p" if "p \<in> set (spec_window long_db)" for p
  proof -
    from that aw_new old have "month ?old < month p" by blast
    then show ?thesis by simp
  qed
  then have new: "list_all (\<lambda>p. ''2023-12'' < month p) (spec_window long_db)"
    by (simp only: list_all_iff) blast
  have roa: "calculate_roa long_db = Inr (32727 / 100)"
    using aw_calc [THEN conjunct2, THEN conjunct1]
    by (simp add: long_db_assets long_db_window test_period_def py_round2_def
        round_half_even_def)
  have td: "distinct (map month (table_rows (financial_statements test_db)))"
    by (simp add: table_rows_def test_db_def test_period_def)
  have tl: "length (table_rows (financial_statements test_db)) \<le> MONTHS_FOR_ANALYSIS"
    by (simp add: table_rows_def test_db_def MONTHS_FOR_ANALYSIS_def)
  note at = analysis_window [of test_db, THEN mp, OF td]
  have all: "set (spec_window test_db) = set (table_rows (financial_statements test_db))"
    using at [THEN conjunct2, THEN conjunct2, THEN conjunct2, THEN conjunct2,
      THEN conjunct2, THEN conjunct1, THEN mp, OF tl] by (rule conjunct1)
  from len new roa all show ?thesis by (intro conjI)
qed

section \<open>The test fixture\<close>

text \<open>
  The model on the fixture of \<^verbatim>\<open>tests/test_metrics.py\<close> gives the values its comments
  expect: ROA 327.27, CIR 41.67, LDR 266.67, default rate (50.0, 37.5), NPL ratio 37.5.
\<close>

lemma test_db_window:
  "spec_window test_db = map test_period
        [''2024-12'', ''2024-11'', ''2024-10'', ''2024-09'', ''2024-08'', ''2024-07'',
         ''2024-06'', ''2024-05'', ''2024-04'', ''2024-03'', ''2024-02'', ''2024-01'']"
  by (simp add: spec_window_def table_rows_def test_db_def recent_periods_query_def
      MONTHS_FOR_ANALYSIS_def test_period_def)

lemma test_db_totals:
  "spec_total_deposits test_db = 300000" "spec_total_loans test_db = 800000"
  "spec_total_assets test_db = 1100000" "spec_total_income test_db = 14400000"
  by (simp_all add: spec_total_deposits_def spec_total_loans_def spec_total_assets_def
      spec_total_income_def test_db_window test_period_def)
     (simp_all add: table_rows_def test_db_def deposit_balances_def)

lemma test_db_tables:
  "financial_statements test_db = Inr (map test_period
        [''2024-01'', ''2024-02'', ''2024-03'', ''2024-04'', ''2024-05'', ''2024-06'',
         ''2024-07'', ''2024-08'', ''2024-09'', ''2024-10'', ''2024-11'', ''2024-12''])"
  "accounts test_db = Inr
        [\<lparr>account_type = ''checking'', balance = 100000\<rparr>,
         \<lparr>account_type = ''savings'', balance = 200000\<rparr>]"
  "loans test_db = Inr
        [\<lparr>sector = ''Technology'', loan_amount = 500000, default_flag = 0\<rparr>,
         \<lparr>sector = ''Retail'', loan_amount = 300000, default_flag = 1\<rparr>]"
  by (simp_all add: test_db_def)

lemma test_db_scenario:
  "calculate_roa test_db = Inr (32727 / 100)"
  "calculate_cost_to_income_ratio test_db = Inr (4167 / 100)"
  "calculate_loan_to_deposit_ratio test_db = Inr (26667 / 100)"
  "calculate_default_rate test_db = Inr (50, 375 / 10)"
  "calculate_npl_ratio test_db = Inr (375 / 10)"
proof -
  show "calculate_roa test_db = Inr (32727 / 100)"
    using windowed_values(3) [OF test_db_tables]
    by (simp add: test_db_totals test_db_window test_period_def py_round2_def
        round_half_even_def)
  show "calculate_cost_to_income_ratio test_db = Inr (4167 / 100)"
    using windowed_values(1) [OF test_db_tables(1)]
    by (simp add: test_db_totals test_db_window test_period_def py_round2_def
        round_half_even_def)
  show "calculate_loan_to_deposit_ratio test_db = Inr (26667 / 100)"
    by (simp add: calculate_loan_to_deposit_ratio_def ldr_body_def test_db_tables sqe_simps
        query_defs deposit_balances_def py_round2_def round_half_even_def)
  show "calculate_default_rate test_db = Inr (50, 375 / 10)"
    using default_rate_value [OF test_db_tables(3)]
    by (simp add: py_round2_def round_half_even_def)
  show "calculate_npl_ratio test_db = Inr (375 / 10)" by (rule npl_test_db)
qed

section \<open>Exposures of the sectors and the loan total\<close>

lemma sum_list_indicator_absent:
  "x \<notin> set ss \<Longrightarrow> (\<Sum>s\<leftarrow>ss. if x = s then c else 0) = (0 :: real)"
  by (induction ss) auto

lemma sum_list_indicator:
  "distinct ss \<Longrightarrow> x \<in> set ss \<Longrightarrow> (\<Sum>s\<leftarrow>ss. if x = s then c else 0) = (c :: real)"
  by (induction ss) (auto simp add: sum_list_indicator_absent)

lemma sum_list_groups:
  assumes "distinct ss" and "set (map k ls) \<subseteq> set ss"
  shows "(\<Sum>s\<leftarrow>ss. sum_list (map f (filter (\<lambda>l. k l = s) ls))) = (sum_list (map f ls) :: real)"
  using assms(2)
proof (induction ls)
  case Nil
  then show ?case by simp
next
  case (Cons l ls)
  then have in_ss: "k l \<in> set ss" and sub: "set (map k ls) \<subseteq> set ss" by simp_all
  have "(\<Sum>s\<leftarrow>ss. sum_list (map f (filter (\<lambda>x. k x = s) (l # ls))))
      = (\<Sum>s\<leftarrow>ss. (if k l = s then f l else 0) + sum_list (map f (filter (\<lambda>x. k x = s) ls)))"
    by (rule arg_cong [where f = sum_list]) (rule map_cong, simp_all)
  also have "\<dots> = (\<Sum>s\<leftarrow>ss. if k l = s then f l else 0)
      + (\<Sum>s\<leftarrow>ss. sum_list (map f (filter (\<lambda>x. k x = s) ls)))"
    by (simp add: sum_list_addf)
  also have "\<dots> = f l + sum_list (map f ls)"
    using sum_list_indicator [OF assms(1) in_ss] Cons.IH [OF sub] by simp
  finally show ?case by simp
qed

lemma exposure_query_total:
  "sum_list (map total_exposure (exposure_query ls)) = sum_list (map loan_amount ls)"
proof -
  let ?mk = "\<lambda>s. let grp = filter (\<lambda>l. sector l = s) ls
                 in \<lparr>row_sector = s,
                     loan_count = length grp,
                     total_exposure = sum_list (map loan_amount grp),
                     defaulted_exposure =
                       sum_list (map (\<lambda>l. if default_flag l = 1 then loan_amount l else 0) grp),
                     defaulted_count = length (filter (\<lambda>l. default_flag l = 1) grp)\<rparr>"
  have "sum_list (map total_exposure (exposure_query ls))
      = sum_list (map total_exposure (map ?mk (remdups (map sector ls))))"
    unfolding exposure_query_def by (rule sum_list_map_sort_key)
  also have "\<dots> = (\<Sum>s\<leftarrow>remdups (map sector ls).
        sum_list (map loan_amount (filter (\<lambda>l. sector l = s) ls)))"
    by (simp add: comp_def Let_def)
  also have "\<dots> = sum_list (map loan_amount ls)"
    by (rule sum_list_groups) simp_all
  finally show ?thesis .
qed

lemma sum_nonzero_nonempty: "sum_list es \<noteq> (0 :: real) \<Longrightarrow> es \<noteq> []"
  by auto

lemma exposure_pct_sum_nonzero:
  assumes nz: "sum_list es \<noteq> 0"
  shows "np_sum_skipna (exposure_pct_column es) = Finite 100"
proof -
  have "exposure_pct_column es = map Finite (map (\<lambda>x. x / sum_list es * 100) es)"
    using nz by (simp add: exposure_pct_column_Finite)
  then have "np_sum_skipna (exposure_pct_column es)
      = Finite (\<Sum>x\<leftarrow>es. x / sum_list es * 100)"
    by (simp only: np_sum_skipna_Finite)
  then show ?thesis using sum_list_pct [OF nz] by simp
qed

lemma hhi_score_nonzero_total:
  assumes nz: "sum_list es \<noteq> 0"
  shows "hhi_score es = Finite (herfindahl es * 10)"
proof -
  let ?f = "\<lambda>x. (x / sum_list es * 100) * (x / sum_list es * 100)"
  have "map (\<lambda>p. np_mul p p) (exposure_pct_column es) = map Finite (map ?f es)"
    using nz by (simp add: exposure_pct_column_Finite)
  moreover have "np_sum_skipna (map Finite (map ?f es)) = Finite (sum_list (map ?f es))"
    by (rule np_sum_skipna_Finite)
  moreover have "sum_list (map ?f es) = herfindahl es * 10000"
    unfolding herfindahl_def by (rule sum_list_pct_squares [OF nz])
  ultimately have "np_sum_skipna (map (\<lambda>p. np_mul p p) (exposure_pct_column es))
      = Finite (herfindahl es * 10000)"
    by (simp only:)
  then show ?thesis using sum_nonzero_nonempty [OF nz] by (simp add: hhi_score_def)
qed

section \<open>Loan amounts that are not negative\<close>

lemma nonneg_sum_zero:
  "list_all (\<lambda>x. 0 \<le> x) es \<Longrightarrow> sum_list es = (0 :: real) \<Longrightarrow> list_all (\<lambda>x. x = 0) es"
proof (induction es)
  case Nil
  then show ?case by simp
next
  case (Cons x es)
  then have x: "0 \<le> x" and nn: "list_all (\<lambda>x. 0 \<le> x) es" by simp_all
  from sum_list_nonneg' [OF nn] x Cons.prems(2) have "x = 0" "sum_list es = 0" by simp_all
  with Cons.IH [OF nn] show ?case by simp
qed

lemma skipna_all_NaN: "np_sum_skipna (map (\<lambda>x. NaN) es) = Finite 0"
  by (induction es) (simp_all add: np_sum_skipna_def)

lemma hhi_score_all_zero:
  assumes "list_all (\<lambda>x. x = 0) es" and "es \<noteq> []"
  shows "hhi_score es = Finite 0"
proof -
  from assms(1) have s: "sum_list es = 0" by (induction es) simp_all
  have "map (\<lambda>p. np_mul p p) (exposure_pct_column es) = map (\<lambda>x. NaN) es"
    using assms(1) unfolding exposure_pct_column_def s
    by (auto simp add: list_all_iff)
  then have "np_sum_skipna (map (\<lambda>p. np_mul p p) (exposure_pct_column es)) = Finite 0"
    by (simp only: skipna_all_NaN)
  with assms(2) show ?thesis by (simp add: hhi_score_def)
qed

lemma hhi_score_nonneg_le_10:
  assumes nn: "list_all (\<lambda>x. 0 \<le> x) es"
  shows "\<exists>v. hhi_score es = Finite v \<and> 0 \<le> v \<and> v \<le> 10"
proof (cases "es = []")
  case True
  then show ?thesis by (simp add: hhi_score_def)
next
  case ne: False
  show ?thesis
  proof (cases "sum_list es = 0")
    case True
    from hhi_score_all_zero [OF nonneg_sum_zero [OF nn True] ne] show ?thesis by simp
  next
    case False
    with sum_list_nonneg' [OF nn] have d: "0 < sum_list es * sum_list es" by simp
    have n: "0 \<le> (\<Sum>x\<leftarrow>es. x * x)" by (rule sum_list_nonneg) auto
    have lo: "0 \<le> herfindahl es"
      unfolding herfindahl_def using n d by (rule divide_nonneg_pos)
    have hi: "herfindahl es \<le> 1"
      unfolding herfindahl_def using sum_squares_le [OF nn] d by simp
    from lo hi hhi_score_nonzero_total [OF False] show ?thesis by simp
  qed
qed

lemma exposure_query_nonneg:
  assumes nn: "list_all (\<lambda>l. 0 \<le> loan_amount l) ls"
  shows "list_all (\<lambda>x. 0 \<le> x) (map total_exposure (exposure_query ls))"
proof -
  have "0 \<le> total_exposure g" if g: "g \<in> set (exposure_query ls)" for g
  proof -
    from g obtain s where
      geq: "total_exposure g = sum_list (map loan_amount (filter (\<lambda>l. sector l = s) ls))"
      by (auto simp add: exposure_query_def Let_def)
    have "list_all (\<lambda>x. 0 \<le> x) (map loan_amount (filter (\<lambda>l. sector l = s) ls))"
      using nn by (auto simp add: list_all_iff)
    from sum_list_nonneg' [OF this] geq show ?thesis by simp
  qed
  then show ?thesis by (auto simp add: list_all_iff)
qed

lemma defaulted_sum_nonneg':
  "list_all (\<lambda>l. 0 \<le> loan_amount l) ls \<Longrightarrow>
     0 \<le> (\<Sum>l\<leftarrow>ls. if default_flag l = 1 then loan_amount l else 0)"
  by (induction ls) auto

lemma loan_sum_nonneg:
  "list_all (\<lambda>l. 0 \<le> loan_amount l) ls \<Longrightarrow> 0 \<le> sum_list (map loan_amount ls)"
  by (induction ls) auto

lemma nonneg_ratio:
  assumes "list_all (\<lambda>l. 0 \<le> loan_amount l) ls"
  shows "0 \<le> py_round2 ((\<Sum>l\<leftarrow>ls. if default_flag l = 1 then loan_amount l else 0)
             / sum_list (map loan_amount ls) * 100)"
proof -
  have "0 \<le> (\<Sum>l\<leftarrow>ls. if default_flag l = 1 then loan_amount l else 0)
             / sum_list (map loan_amount ls) * 100"
    using defaulted_sum_nonneg' [OF assms] loan_sum_nonneg [OF assms] by simp
  then show ?thesis by (rule py_round2_nonneg)
qed

lemma npl_nonneg_amounts:
  assumes "loan_amounts_nonneg c" and "calculate_npl_ratio c = Inr v"
  shows "0 \<le> v"
proof (cases "loans c")
  case (Inl e)
  with assms(2) loans_fail(6) [OF Inl] show ?thesis by simp
next
  case (Inr ls)
  with assms(1) have nn: "list_all (\<lambda>l. 0 \<le> loan_amount l) ls"
    by (simp add: loan_amounts_nonneg_def table_rows_def)
  from nonneg_ratio [OF nn] assms(2) npl_value [OF Inr] show ?thesis
    by (auto split: if_splits)
qed

lemma default_rate_by_value_nonneg_amounts:
  assumes "loan_amounts_nonneg c" and "calculate_default_rate c = Inr (by_count, by_value)"
  shows "0 \<le> by_value"
proof (cases "loans c")
  case (Inl e)
  with assms(2) loans_fail(5) [OF Inl] show ?thesis by simp
next
  case (Inr ls)
  with assms(1) have nn: "list_all (\<lambda>l. 0 \<le> loan_amount l) ls"
    by (simp add: loan_amounts_nonneg_def table_rows_def)
  from nonneg_ratio [OF nn] assms(2) default_rate_value [OF Inr] py_round2_0 show ?thesis
    by (auto split: if_splits)
qed

section \<open>Loans tables with an amount that is not positive\<close>

lemma negative_loan_tables:
  "accounts negative_loan_db = Inr []"
  "loans negative_loan_db = Inr
        [\<lparr>sector = ''A'', loan_amount = 100, default_flag = 0\<rparr>,
         \<lparr>sector = ''B'', loan_amount = - 300, default_flag = 0\<rparr>,
         \<lparr>sector = ''B'', loan_amount = 100, default_flag = 1\<rparr>]"
  by (simp_all add: negative_loan_db_def)

lemma negative_loan_npl: "calculate_npl_ratio negative_loan_db = Inr (- 100)"
  using npl_value [OF negative_loan_tables(2)]
  by (simp add: py_round2_def round_half_even_def)

lemma negative_loan_default_rate:
  "calculate_default_rate negative_loan_db = Inr (3333 / 100, 0)"
  using default_rate_value [OF negative_loan_tables(2)]
  by (simp add: py_round2_def round_half_even_def)

lemma no_deposits_ldr:
  "accounts c = Inr [] \<Longrightarrow> loans c = Inr ls \<Longrightarrow> calculate_loan_to_deposit_ratio c = Inr 0"
  by (simp add: calculate_loan_to_deposit_ratio_def ldr_body_def sqe_simps query_defs
      deposit_balances_def)

lemma negative_loan_contributions:
  "risk_contributions negative_loan_db =
     Inr \<lparr>npl_score = - 1000, ldr_score = 20, default_score = 0,
          concentration_score = Finite 50\<rparr>"
proof -
  obtain s where s: "risk_contributions negative_loan_db = Inr s"
    using risk_contributions_return by blast
  from risk_contributions_scores [OF s] negative_loan_npl negative_loan_default_rate
    no_deposits_ldr [OF negative_loan_tables]
  have sc: "npl_score s = - 1000" "ldr_score s = 20" "default_score s = 0" by simp_all
  have q: "map total_exposure (exposure_query (table_rows (loans negative_loan_db)))
      = [100, - 200]"
    by (simp add: table_rows_def negative_loan_tables exposure_query_def)
  have "concentration_score s = Finite 50"
    unfolding concentration_score_eq [OF s] q
    by (simp add: hhi_score_def exposure_pct_column_def np_sum_skipna_def)
  with sc s show ?thesis by simp
qed

lemma negative_loan_index:
  "calculate_bank_risk_index negative_loan_db = Inr (Finite (- 930))"
  using py_round2_of_int [of "- 930"]
  by (simp add: risk_index_value [OF negative_loan_contributions] py_min_def)

lemma zero_loan_tables:
  "accounts zero_loan_db = Inr []"
  "loans zero_loan_db = Inr [\<lparr>sector = ''A'', loan_amount = 0, default_flag = 0\<rparr>]"
  by (simp_all add: zero_loan_db_def)


lemma zero_loan_contributions:
  "risk_contributions zero_loan_db =
     Inr \<lparr>npl_score = 0, ldr_score = 20, default_score = 0,
          concentration_score = Finite 0\<rparr>"
proof -
  obtain s where s: "risk_contributions zero_loan_db = Inr s"
    using risk_contributions_return by blast
  have npl: "calculate_npl_ratio zero_loan_db = Inr 0"
    using npl_value [OF zero_loan_tables(2)] by simp
  have dr: "calculate_default_rate zero_loan_db = Inr (0, 0)"
    using default_rate_value [OF zero_loan_tables(2)] by (simp add: py_round2_0)
  from risk_contributions_scores [OF s] npl dr no_deposits_ldr [OF zero_loan_tables]
  have sc: "npl_score s = 0" "ldr_score s = 20" "default_score s = 0" by simp_all
  have q: "map total_exposure (exposure_query (table_rows (loans zero_loan_db))) = [0]"
    by (simp add: table_rows_def zero_loan_tables exposure_query_def)
  have "concentration_score s = Finite 0"
    unfolding concentration_score_eq [OF s] q
    by (simp add: hhi_score_def exposure_pct_column_def np_sum_skipna_def)
  with sc s show ?thesis by simp
qed

section \<open>Contributions and the risk index\<close>

lemma nonneg_samples:
  "loan_amounts_nonneg empty_conn" "loan_amounts_nonneg test_db"
  by (simp_all add: loan_amounts_nonneg_def table_rows_def empty_conn_def test_db_def)

lemma contributions_lower_nonneg:
  assumes "risk_contributions c = Inr s" and "loan_amounts_nonneg c"
  shows "0 \<le> npl_score s" "0 \<le> default_score s"
proof -
  from risk_contributions_scores [OF assms(1)] obtain npl ldr by_count by_value where
    n: "calculate_npl_ratio c = Inr npl" and d: "calculate_default_rate c = Inr (by_count, by_value)"
    and "npl_score s = min (npl * 10) 40" "default_score s = min (by_value * 3) 30"
    by blast
  with npl_nonneg_amounts [OF assms(2) n] default_rate_by_value_nonneg_amounts [OF assms(2) d]
  show "0 \<le> npl_score s" "0 \<le> default_score s" by simp_all
qed

lemma concentration_bounded_nonneg:
  assumes "risk_contributions c = Inr s" and "loan_amounts_nonneg c"
  shows "\<exists>k. concentration_score s = Finite k \<and> 0 \<le> k \<and> k \<le> 10"
proof -
  have "list_all (\<lambda>x. 0 \<le> x) (map total_exposure (exposure_query (table_rows (loans c))))"
    using assms(2) exposure_query_nonneg by (simp add: loan_amounts_nonneg_def)
  from hhi_score_nonneg_le_10 [OF this] show ?thesis
    unfolding concentration_score_eq [OF assms(1)] .
qed

text \<open>
  The NPL, liquidity and default contributions pass through \<^verbatim>\<open>min\<close> with the caps
  40, 20 and 30 on every data source. The concentration contribution is the scaled
  Herfindahl index of the sector exposures; where no loan amount is negative the shares
  lie between 0 and 100 in exact arithmetic and it is at most 10.
\<close>

lemma contributions_capped:
  "\<exists>s npl by_count by_value. risk_contributions c = Inr s
     \<and> calculate_npl_ratio c = Inr npl
     \<and> calculate_default_rate c = Inr (by_count, by_value)
     \<and> npl_score s = min (npl * 10) 40 \<and> default_score s = min (by_value * 3) 30
     \<and> npl_score s \<le> 40 \<and> ldr_score s \<le> 20 \<and> default_score s \<le> 30
     \<and> concentration_score s
         = hhi_score (map total_exposure (exposure_query (table_rows (loans c))))
     \<and> (loan_amounts_nonneg c \<longrightarrow> (\<exists>k. concentration_score s = Finite k \<and> k \<le> 10))"
proof -
  obtain s where s: "risk_contributions c = Inr s"
    using risk_contributions_return by blast
  from risk_contributions_scores [OF s] obtain npl ldr by_count by_value where
    sc: "calculate_npl_ratio c = Inr npl" "calculate_default_rate c = Inr (by_count, by_value)"
    "npl_score s = min (npl * 10) 40" "default_score s = min (by_value * 3) 30"
    by blast
  note up = contributions_upper(1-3) [OF s]
  note eq = concentration_score_eq [OF s]
  have conc: "loan_amounts_nonneg c \<longrightarrow> (\<exists>k. concentration_score s = Finite k \<and> k \<le> 10)"
    using concentration_bounded_nonneg [OF s] by blast
  show ?thesis
    apply (rule exI [of _ s], rule exI [of _ npl], rule exI [of _ by_count],
        rule exI [of _ by_value])
    apply (intro conjI)
    apply (rule s sc up eq conc)+
    done
qed

lemma contributions_capped_example:
  "\<exists>s k. risk_contributions test_db = Inr s
     \<and> npl_score s \<le> 40 \<and> ldr_score s \<le> 20 \<and> default_score s \<le> 30
     \<and> concentration_score s = Finite k \<and> k \<le> 10"
  using contributions_capped [of test_db] nonneg_samples(2) by blast

text \<open>
  Claim C5. Each contribution is to be at most its cap: 40, 20, 30 and 10. The comments
  of \<^verbatim>\<open>calculate_bank_risk_index\<close> give the HHI the range 0-10000 and the
  concentration contribution the range 0-10, with 10 as the maximum risk, and the three
  other contributions pass through \<^verbatim>\<open>min\<close>; the concentration contribution is
  scaled only. On the loans table below, with sector exposures 100 and -200, the shares
  are -100 and 200, the HHI is 50000 and the concentration contribution is 50, above its
  cap of 10.
\<close>

theorem concentration_exceeds_cap:
  "risk_contributions
     \<lparr>financial_statements = Inr [], accounts = Inr [],
      loans = Inr
        [\<lparr>sector = ''A'', loan_amount = 100, default_flag = 0\<rparr>,
         \<lparr>sector = ''B'', loan_amount = - 300, default_flag = 0\<rparr>,
         \<lparr>sector = ''B'', loan_amount = 100, default_flag = 1\<rparr>]\<rparr>
   = Inr \<lparr>npl_score = - 1000, ldr_score = 20, default_score = 0,
          concentration_score = Finite 50\<rparr>
   \<and> \<not> (50 :: real) \<le> 10"
  using negative_loan_contributions by (simp add: negative_loan_db_def)

text \<open>
  In exact arithmetic the index is at most 100 on every data source. Where no loan amount
  is negative, empty tables included, no contribution is negative: the index lies in
  [0, 100] and is the sum of the four contributions clamped to [0, 100], the lower clamp
  changing nothing there, rounded to 2 decimal places at the return.
\<close>

lemma risk_index_bounded:
  "\<exists>v. calculate_bank_risk_index c = Inr (Finite v) \<and> v \<le> 100
     \<and> (loan_amounts_nonneg c \<longrightarrow>
          0 \<le> v
          \<and> (\<exists>s k. risk_contributions c = Inr s \<and> concentration_score s = Finite k
                \<and> v = py_round2
                    (max 0 (min (npl_score s + ldr_score s + default_score s + k) 100))))"
proof -
  obtain s where s: "risk_contributions c = Inr s"
    using risk_contributions_return by blast
  define a where "a = npl_score s + ldr_score s + default_score s"
  note val = risk_index_value [OF s, folded a_def]
  from concentration_cases [OF s] show ?thesis
  proof
    assume inf: "concentration_score s = PosInf"
    have "py_round2 100 = 100" using py_round2_of_int [of 100] by simp
    with val inf have "calculate_bank_risk_index c = Inr (Finite 100)"
      by (simp add: py_min_def)
    moreover have "\<not> loan_amounts_nonneg c"
      using concentration_bounded_nonneg [OF s] inf by auto
    ultimately show ?thesis by simp
  next
    assume "\<exists>k. concentration_score s = Finite k \<and> 0 \<le> k"
    then obtain k where k: "concentration_score s = Finite k" "0 \<le> k" by blast
    define v where "v = py_round2 (min (a + k) 100)"
    from k val have val': "calculate_bank_risk_index c = Inr (Finite v)"
      by (simp add: py_min_def min_def v_def)
    have up: "v \<le> 100" unfolding v_def by (rule py_round2_le_100) simp
    have low: "0 \<le> v
          \<and> (\<exists>s k. risk_contributions c = Inr s \<and> concentration_score s = Finite k
                \<and> v = py_round2
                    (max 0 (min (npl_score s + ldr_score s + default_score s + k) 100)))"
      if nn: "loan_amounts_nonneg c"
    proof -
      have "0 \<le> a" unfolding a_def
        using contributions_lower_nonneg [OF s nn] contributions_upper(4) [OF s] by simp
      with k(2) have nn': "0 \<le> min (a + k) 100" by simp
      then have eq: "v = py_round2 (max 0 (min (a + k) 100))" by (simp add: max_def v_def)
      have "0 \<le> v" unfolding v_def by (rule py_round2_nonneg [OF nn'])
      moreover have "\<exists>s k. risk_contributions c = Inr s \<and> concentration_score s = Finite k
                \<and> v = py_round2
                    (max 0 (min (npl_score s + ldr_score s + default_score s + k) 100))"
        apply (rule exI [of _ s], rule exI [of _ k])
        using s k(1) eq unfolding a_def by simp
      ultimately show ?thesis by simp
    qed
    show ?thesis
      apply (rule exI [of _ v])
      using val' up low by simp
  qed
qed

lemma risk_index_bounded_example:
  "(\<exists>v. calculate_bank_risk_index empty_conn = Inr (Finite v) \<and> 0 \<le> v \<and> v \<le> 100)
   \<and> (\<exists>v. calculate_bank_risk_index test_db = Inr (Finite v) \<and> 0 \<le> v \<and> v \<le> 100)"
  using risk_index_bounded [of empty_conn] risk_index_bounded [of test_db]
    nonneg_samples by blast

text \<open>
  Claim C1. The index is to lie in [0, 100] on every data source. The docstring of
  \<^verbatim>\<open>calculate_bank_risk_index\<close> says so (0-100) and the comment over its last
  assignment reads "Normaliza para 0-100", but the assignment is
  \<^verbatim>\<open>min(total_risk_score, 100)\<close>, with no lower clamp. On the loans table below the
  NPL ratio is -100, the contributions are -1000, 20, 0 and 50, and the function returns
  -930.
\<close>

theorem risk_index_negative:
  "calculate_bank_risk_index
     \<lparr>financial_statements = Inr [], accounts = Inr [],
      loans = Inr
        [\<lparr>sector = ''A'', loan_amount = 100, default_flag = 0\<rparr>,
         \<lparr>sector = ''B'', loan_amount = - 300, default_flag = 0\<rparr>,
         \<lparr>sector = ''B'', loan_amount = 100, default_flag = 1\<rparr>]\<rparr>
   = Inr (Finite (- 930))
   \<and> \<not> (0 :: real) \<le> - 930"
  using negative_loan_index by (simp add: negative_loan_db_def)

section \<open>NPL ratio against default rate by value\<close>

text \<open>
  Where the total loan amount is not negative the guards of the two functions choose the
  same branch: \<^verbatim>\<open>calculate_npl_ratio\<close> returns the second component of
  \<^verbatim>\<open>calculate_default_rate\<close>, the defaulted amount over the total amount, times 100,
  rounded to 2 decimal places when the total is positive, and 0.0 when it is zero.
\<close>

lemma npl_ratio_equals_default_rate_by_value:
  "0 \<le> spec_total_loans c \<longrightarrow>
     (\<exists>by_count by_value. calculate_default_rate c = Inr (by_count, by_value)
        \<and> calculate_npl_ratio c = Inr by_value
        \<and> (0 < spec_total_loans c \<longrightarrow>
             by_value = py_round2
               ((\<Sum>l\<leftarrow>table_rows (loans c). if default_flag l = 1 then loan_amount l else 0)
                  / spec_total_loans c * 100))
        \<and> (spec_total_loans c = 0 \<longrightarrow> by_value = 0))"
proof (cases "loans c")
  case (Inl e)
  then show ?thesis
    using loans_fail(5,6) [OF Inl] by (simp add: table_rows_def spec_total_loans_def)
next
  case (Inr ls)
  then have t: "spec_total_loans c = sum_list (map loan_amount ls)"
    and r: "table_rows (loans c) = ls"
    by (simp_all add: spec_total_loans_def table_rows_def)
  show ?thesis
  proof
    assume "0 \<le> spec_total_loans c"
    then have nn: "0 \<le> sum_list (map loan_amount ls)" by (simp only: t)
    show "\<exists>by_count by_value. calculate_default_rate c = Inr (by_count, by_value)
        \<and> calculate_npl_ratio c = Inr by_value
        \<and> (0 < spec_total_loans c \<longrightarrow>
             by_value = py_round2
               ((\<Sum>l\<leftarrow>table_rows (loans c). if default_flag l = 1 then loan_amount l else 0)
                  / spec_total_loans c * 100))
        \<and> (spec_total_loans c = 0 \<longrightarrow> by_value = 0)"
      unfolding t r npl_value [OF Inr] default_rate_value [OF Inr]
      using nn by (auto simp add: py_round2_0)
  qed
qed

lemma npl_ratio_equals_default_rate_by_value_example:
  "\<exists>by_count. calculate_default_rate test_db = Inr (by_count, 375 / 10)
     \<and> calculate_npl_ratio test_db = Inr (375 / 10)"
proof -
  have "0 \<le> spec_total_loans test_db"
    by (simp add: spec_total_loans_def table_rows_def test_db_def)
  with npl_ratio_equals_default_rate_by_value [of test_db] npl_test_db
  show ?thesis by auto
qed

text \<open>
  Claim C4. The NPL ratio is to equal the default rate by value on every data source.
  The two functions compute the same quotient, but \<^verbatim>\<open>calculate_npl_ratio\<close> guards it
  by \<^verbatim>\<open>total_loans == 0\<close> and \<^verbatim>\<open>calculate_default_rate\<close> by
  \<^verbatim>\<open>total_amount > 0\<close>. On the loans table below, whose amounts sum to -100, the NPL
  ratio is -100.0, which the assertion \<^verbatim>\<open>npl >= 0\<close> of the test suite excludes, and
  the default rate by value is 0.0.
\<close>

theorem npl_ratio_differs_on_negative_total:
  "calculate_npl_ratio
     \<lparr>financial_statements = Inr [], accounts = Inr [],
      loans = Inr
        [\<lparr>sector = ''A'', loan_amount = 100, default_flag = 0\<rparr>,
         \<lparr>sector = ''B'', loan_amount = - 300, default_flag = 0\<rparr>,
         \<lparr>sector = ''B'', loan_amount = 100, default_flag = 1\<rparr>]\<rparr>
   = Inr (- 100)
   \<and> calculate_default_rate
     \<lparr>financial_statements = Inr [], accounts = Inr [],
      loans = Inr
        [\<lparr>sector = ''A'', loan_amount = 100, default_flag = 0\<rparr>,
         \<lparr>sector = ''B'', loan_amount = - 300, default_flag = 0\<rparr>,
         \<lparr>sector = ''B'', loan_amount = 100, default_flag = 1\<rparr>]\<rparr>
   = Inr (3333 / 100, 0)
   \<and> (- 100 :: real) \<noteq> 0"
  using negative_loan_npl negative_loan_default_rate by (simp add: negative_loan_db_def)

section \<open>Shares of the sectors\<close>

text \<open>
  \<^verbatim>\<open>calculate_credit_exposure_by_sector\<close> never raises; with no loans it returns an
  empty result; with at least one loan it returns a non-empty result in descending order
  of \<^verbatim>\<open>total_exposure\<close>. In exact arithmetic the \<^verbatim>\<open>exposure_pct\<close> column sums to
  100 whenever the total loan amount is not zero.
\<close>

lemma credit_exposure_shares:
  "\<exists>rows. calculate_credit_exposure_by_sector c = Inr rows
     \<and> (table_rows (loans c) = [] \<longrightarrow> rows = [])
     \<and> (table_rows (loans c) \<noteq> [] \<longrightarrow> rows \<noteq> [])
     \<and> sorted_wrt (\<lambda>a b. total_exposure b \<le> total_exposure a) rows
     \<and> (spec_total_loans c \<noteq> 0 \<longrightarrow>
          (\<exists>total. np_sum_skipna (map exposure_pct rows) = Finite total
             \<and> \<bar>total - 100\<bar> \<le> 1 / 10 ^ 6))"
proof -
  obtain rows where rows: "calculate_credit_exposure_by_sector c = Inr rows"
    using calculators_return(8) by blast
  let ?df = "exposure_query (table_rows (loans c))"
  note tr = exposure_rows(1) [OF rows] and pc = exposure_rows(2) [OF rows]
  have empty: "rows = []" if "table_rows (loans c) = []"
  proof -
    from that have "?df = []" by (simp only: exposure_query_Nil_iff)
    with tr show ?thesis by simp
  qed
  have nonempty: "rows \<noteq> []" if "table_rows (loans c) \<noteq> []"
  proof -
    from that have "?df \<noteq> []" by (simp add: exposure_query_Nil_iff)
    with tr show ?thesis by auto
  qed
  have "sorted_wrt (\<lambda>a b. total_exposure b \<le> total_exposure a)
          (map sector_group.truncate rows)"
    unfolding tr by (rule exposure_query_sorted)
  then have ordered: "sorted_wrt (\<lambda>a b. total_exposure b \<le> total_exposure a) rows"
    by (simp add: sorted_wrt_map sector_group.truncate_def)
  have shares: "\<exists>total. np_sum_skipna (map exposure_pct rows) = Finite total
             \<and> \<bar>total - 100\<bar> \<le> 1 / 10 ^ 6"
    if nz: "spec_total_loans c \<noteq> 0"
  proof -
    from nz have "sum_list (map total_exposure ?df) \<noteq> 0"
      by (simp add: exposure_query_total spec_total_loans_def)
    from exposure_pct_sum_nonzero [OF this]
    have "np_sum_skipna (map exposure_pct rows) = Finite 100" by (simp only: pc)
    then show ?thesis by simp
  qed
  from rows empty nonempty ordered shares show ?thesis by blast
qed

lemma credit_exposure_shares_example:
  "calculate_credit_exposure_by_sector empty_conn = Inr []
   \<and> (\<exists>rows. calculate_credit_exposure_by_sector test_db = Inr rows \<and> rows \<noteq> []
        \<and> sorted_wrt (\<lambda>a b. total_exposure b \<le> total_exposure a) rows
        \<and> (\<exists>total. np_sum_skipna (map exposure_pct rows) = Finite total
              \<and> \<bar>total - 100\<bar> \<le> 1 / 10 ^ 6))"
proof -
  have e: "table_rows (loans empty_conn) = []"
    by (simp add: table_rows_def empty_conn_def)
  have t: "table_rows (loans test_db) \<noteq> []" "spec_total_loans test_db \<noteq> 0"
    by (simp_all add: table_rows_def test_db_def spec_total_loans_def)
  from credit_exposure_shares [of empty_conn] e
  have "calculate_credit_exposure_by_sector empty_conn = Inr []" by auto
  moreover from credit_exposure_shares [of test_db] t
  have "\<exists>rows. calculate_credit_exposure_by_sector test_db = Inr rows \<and> rows \<noteq> []
        \<and> sorted_wrt (\<lambda>a b. total_exposure b \<le> total_exposure a) rows
        \<and> (\<exists>total. np_sum_skipna (map exposure_pct rows) = Finite total
              \<and> \<bar>total - 100\<bar> \<le> 1 / 10 ^ 6)"
    by blast
  ultimately show ?thesis by blast
qed


end
